theory Spec2Isabelle
  imports Complex_Main "HOL-Library.AList" "HOL-Library.Char_ord" "HOL-Library.List_Lexorder"
begin

section \<open>Data model\<close>

text \<open>
  Embedding of \<^verbatim>\<open>lora_diffusion/lora.py\<close>.

  Tensors are a shape and row-major data, as a contiguous torch tensor is stored. Floating
  point numbers are idealised as real numbers; devices and dtypes are not modelled
  (\<^verbatim>\<open>.to(...)\<close> and \<^verbatim>\<open>.type(...)\<close> are the identity on the data).
  A parameter (\<^verbatim>\<open>nn.Parameter\<close>) carries an identity \<open>pid\<close>: two parameters with the
  same \<open>pid\<close> are the same Python object, a copy would carry a fresh one.
\<close>

record tensor =
  shape :: "nat list"
  tdata :: "real list"

record param =
  pid :: nat
  requires_grad :: bool
  pval :: tensor

text \<open>Python exceptions. The string of a \<open>ValueError\<close> names the raise site.\<close>

datatype error =
    ValueError string
  | ZeroDivisionError
  | RuntimeError string
  | IndexError
  | KeyError string
  | AttributeError
  | UnboundLocalError
  | Unmodelled string

text \<open>
  Object allocation and random initialisation are explicit: \<open>next_id\<close> is the identity
  the next new parameter gets, \<open>next_sample\<close> the position in the stream of random samples
  \<open>rnd\<close> that every constructor takes as its first argument.
\<close>

record alloc =
  next_id :: nat
  next_sample :: nat

definition draw :: "(nat \<Rightarrow> real) \<Rightarrow> nat \<Rightarrow> alloc \<Rightarrow> real list \<times> alloc" where
  "draw rnd n st =
     (map rnd [next_sample st ..< next_sample st + n],
      st\<lparr>next_sample := next_sample st + n\<rparr>)"

definition new_param :: "nat list \<Rightarrow> real list \<Rightarrow> alloc \<Rightarrow> param \<times> alloc" where
  "new_param shp xs st =
     (\<lparr>pid = next_id st, requires_grad = True, pval = \<lparr>shape = shp, tdata = xs\<rparr>\<rparr>,
      st\<lparr>next_id := Suc (next_id st)\<rparr>)"

text \<open>\<^verbatim>\<open>nn.Linear\<close>: a leaf layer with a weight of shape (out, in) and an optional bias.\<close>

record linear_layer =
  in_features :: int
  out_features :: int
  weight :: param
  bias :: "param option"

text \<open>
  \<^verbatim>\<open>nn.Conv2d\<close>: kernel size, stride, padding and dilation are pairs; \<open>padding_mode\<close> is
  one of torch's four modes.
\<close>

datatype padding_mode = Zeros | Reflect | Replicate | Circular

record conv_layer =
  in_channels :: int
  out_channels :: int
  kernel_size :: "nat \<times> nat"
  stride :: "nat \<times> nat"
  padding :: "nat \<times> nat"
  dilation :: "nat \<times> nat"
  groups :: int
  padding_mode :: padding_mode
  conv_weight :: param
  conv_bias :: "param option"

text \<open>
  The constructors of the two torch layers are not code of this repository. They are modelled
  as torch documents them: a negative dimension is a \<open>RuntimeError\<close> of the tensor
  allocation, and \<^verbatim>\<open>nn.Conv2d\<close> raises \<open>ValueError\<close> unless \<open>groups\<close> is positive and
  divides both channel counts. The weight is allocated before the bias, then both are filled
  with random samples. The repository never passes \<^verbatim>\<open>padding_mode\<close>, so every convolution
  it builds has torch's default, zero padding.
\<close>

definition nn_Linear ::
  "(nat \<Rightarrow> real) \<Rightarrow> int \<Rightarrow> int \<Rightarrow> bool \<Rightarrow> alloc \<Rightarrow> error + (linear_layer \<times> alloc)" where
  "nn_Linear rnd n_in n_out has_bias st =
     (if n_in < 0 \<or> n_out < 0 then Inl (RuntimeError ''negative dimension'')
      else
        let (ws, st1) = draw rnd (nat n_out * nat n_in) st;
            (w, st2) = new_param [nat n_out, nat n_in] ws st1;
            (b, st3) = (if has_bias
                        then (let (bs, st') = draw rnd (nat n_out) st2;
                                  (p, st'') = new_param [nat n_out] bs st'
                              in (Some p, st''))
                        else (None, st2))
        in Inr (\<lparr>in_features = n_in, out_features = n_out, weight = w, bias = b\<rparr>, st3))"

definition nn_Conv2d ::
  "(nat \<Rightarrow> real) \<Rightarrow> int \<Rightarrow> int \<Rightarrow> nat \<times> nat \<Rightarrow> nat \<times> nat \<Rightarrow> nat \<times> nat \<Rightarrow> nat \<times> nat
     \<Rightarrow> int \<Rightarrow> bool \<Rightarrow> alloc \<Rightarrow> error + (conv_layer \<times> alloc)" where
  "nn_Conv2d rnd c_in c_out ks strd pad dil grp has_bias st =
     (if grp \<le> 0 then Inl (ValueError ''groups must be a positive integer'')
      else if c_in mod grp \<noteq> 0 then Inl (ValueError ''in_channels must be divisible by groups'')
      else if c_out mod grp \<noteq> 0 then Inl (ValueError ''out_channels must be divisible by groups'')
      else if c_in < 0 \<or> c_out < 0 then Inl (RuntimeError ''negative dimension'')
      else
        let shp = [nat c_out, nat (c_in div grp), fst ks, snd ks];
            (ws, st1) = draw rnd (prod_list shp) st;
            (w, st2) = new_param shp ws st1;
            (b, st3) = (if has_bias
                        then (let (bs, st') = draw rnd (nat c_out) st2;
                                  (p, st'') = new_param [nat c_out] bs st'
                              in (Some p, st''))
                        else (None, st2))
        in Inr (\<lparr>in_channels = c_in, out_channels = c_out, kernel_size = ks, stride = strd,
                 padding = pad, dilation = dil, groups = grp, padding_mode = Zeros,
                 conv_weight = w, conv_bias = b\<rparr>, st3))"

text \<open>\<^verbatim>\<open>nn.init.normal_\<close> and \<^verbatim>\<open>nn.init.zeros_\<close> overwrite the data of a parameter in place.\<close>

definition init_normal :: "(nat \<Rightarrow> real) \<Rightarrow> param \<Rightarrow> alloc \<Rightarrow> param \<times> alloc" where
  "init_normal rnd p st =
     (let (xs, st') = draw rnd (length (tdata (pval p))) st
      in (p\<lparr>pval := (pval p)\<lparr>tdata := xs\<rparr>\<rparr>, st'))"

definition init_zeros :: "param \<Rightarrow> param" where
  "init_zeros p = p\<lparr>pval := (pval p)\<lparr>tdata := replicate (length (tdata (pval p))) 0\<rparr>\<rparr>"

section \<open>Augmented layers\<close>

text \<open>
  \<^verbatim>\<open>class LoraInjectedLinear\<close>: the wrapped layer, the down projection, the dropout
  probability, the up projection and the scale. \<open>training\<close> is the mode flag of
  \<^verbatim>\<open>nn.Module\<close> that decides whether dropout is active.
\<close>

record lora_linear =
  linear :: linear_layer
  lora_down :: linear_layer
  dropout_p :: real
  lora_up :: linear_layer
  scale :: real
  training :: bool

record lora_conv =
  conv :: conv_layer
  conv_lora_down :: conv_layer
  conv_dropout_p :: real
  conv_lora_up :: conv_layer
  conv_scale :: real
  conv_training :: bool

text \<open>
  \<^verbatim>\<open>LoraInjectedLinear.__init__\<close>. The rank check comes first; \<^verbatim>\<open>std=1 / r\<close> is evaluated
  after the sub-layers are built and divides by zero for \<open>r = 0\<close>.
\<close>

definition LoraInjectedLinear_init ::
  "(nat \<Rightarrow> real) \<Rightarrow> int \<Rightarrow> int \<Rightarrow> bool \<Rightarrow> int \<Rightarrow> alloc \<Rightarrow> error + (lora_linear \<times> alloc)" where
  "LoraInjectedLinear_init rnd n_in n_out has_bias r st =
     (if r > min n_in n_out then Inl (ValueError ''LoRA rank must be less or equal'')
      else case nn_Linear rnd n_in n_out has_bias st of Inl e \<Rightarrow> Inl e | Inr (lin, st1) \<Rightarrow>
        (case nn_Linear rnd n_in r False st1 of Inl e \<Rightarrow> Inl e | Inr (down, st2) \<Rightarrow>
          (case nn_Linear rnd r n_out False st2 of Inl e \<Rightarrow> Inl e | Inr (up, st3) \<Rightarrow>
            (if r = 0 then Inl ZeroDivisionError
             else
               let (dw, st4) = init_normal rnd (weight down) st3
               in Inr (\<lparr>linear = lin, lora_down = down\<lparr>weight := dw\<rparr>, dropout_p = 1 / 10,
                        lora_up = up\<lparr>weight := init_zeros (weight up)\<rparr>, scale = 1,
                        training = True\<rparr>, st4)))))"

text \<open>\<^verbatim>\<open>LoraInjectedConv2d.__init__\<close>: the up projection is a 1x1 convolution with one group.\<close>

definition LoraInjectedConv2d_init ::
  "(nat \<Rightarrow> real) \<Rightarrow> int \<Rightarrow> int \<Rightarrow> nat \<times> nat \<Rightarrow> nat \<times> nat \<Rightarrow> nat \<times> nat \<Rightarrow> nat \<times> nat
     \<Rightarrow> int \<Rightarrow> bool \<Rightarrow> int \<Rightarrow> alloc \<Rightarrow> error + (lora_conv \<times> alloc)" where
  "LoraInjectedConv2d_init rnd c_in c_out ks strd pad dil grp has_bias r st =
     (if r > min c_in c_out then Inl (ValueError ''LoRA rank must be less or equal'')
      else case nn_Conv2d rnd c_in c_out ks strd pad dil grp has_bias st of
        Inl e \<Rightarrow> Inl e | Inr (cv, st1) \<Rightarrow>
        (case nn_Conv2d rnd c_in r ks strd pad dil grp False st1 of
          Inl e \<Rightarrow> Inl e | Inr (down, st2) \<Rightarrow>
          (case nn_Conv2d rnd r c_out (1, 1) (1, 1) (0, 0) (1, 1) 1 False st2 of
            Inl e \<Rightarrow> Inl e | Inr (up, st3) \<Rightarrow>
            (if r = 0 then Inl ZeroDivisionError
             else
               let (dw, st4) = init_normal rnd (conv_weight down) st3
               in Inr (\<lparr>conv = cv, conv_lora_down = down\<lparr>conv_weight := dw\<rparr>,
                        conv_dropout_p = 1 / 10,
                        conv_lora_up = up\<lparr>conv_weight := init_zeros (conv_weight up)\<rparr>,
                        conv_scale = 1, conv_training = True\<rparr>, st4)))))"

section \<open>The layer graph\<close>

text \<open>
  A model is a tree of named sub-modules (\<^verbatim>\<open>nn.Module._modules\<close>, in insertion order).
  The layers this file knows the class of are leaves of the tree; every other module is a
  \<open>Container\<close> with its class name and its children (a leaf of another class, such as a
  \<^verbatim>\<open>LayerNorm\<close>, is a container without children). Classes are told apart by name.
  \<open>LinearSubclass c l\<close> and \<open>Conv2dSubclass c l\<close> are instances of a proper subclass \<open>c\<close> of
  \<^verbatim>\<open>nn.Linear\<close> and \<^verbatim>\<open>nn.Conv2d\<close>: they pass \<^verbatim>\<open>isinstance\<close> and fail the test
  \<^verbatim>\<open>__class__ ==\<close>; they hold the attributes of their base class and are taken to have no
  sub-modules. Subclasses of the two augmented classes are not modelled.
  The sub-layers of an augmented layer are fields of its record; \<open>sub_layers\<close> lists them
  the way \<^verbatim>\<open>named_children()\<close> does, in the order \<^verbatim>\<open>__init__\<close> assigns them.
  A dropout layer is its probability and its mode flag.
\<close>

datatype layer =
    Linear linear_layer
  | Conv2d conv_layer
  | Dropout real bool
  | LoraInjectedLinear lora_linear
  | LoraInjectedConv2d lora_conv
  | LinearSubclass string linear_layer
  | Conv2dSubclass string conv_layer

datatype module =
    Layer layer
  | Container string "(string \<times> module) list"

datatype layer_class = C_Linear | C_Conv2d | C_LoraInjectedLinear | C_LoraInjectedConv2d

fun layer_class_name :: "layer \<Rightarrow> string" where
  "layer_class_name (Linear _) = ''Linear''"
| "layer_class_name (Conv2d _) = ''Conv2d''"
| "layer_class_name (Dropout _ _) = ''Dropout''"
| "layer_class_name (LoraInjectedLinear _) = ''LoraInjectedLinear''"
| "layer_class_name (LoraInjectedConv2d _) = ''LoraInjectedConv2d''"
| "layer_class_name (LinearSubclass c _) = c"
| "layer_class_name (Conv2dSubclass c _) = c"

fun class_name :: "module \<Rightarrow> string" where
  "class_name (Layer l) = layer_class_name l"
| "class_name (Container c _) = c"

fun isinstance :: "layer \<Rightarrow> layer_class \<Rightarrow> bool" where
  "isinstance (Linear _) C_Linear = True"
| "isinstance (Conv2d _) C_Conv2d = True"
| "isinstance (LoraInjectedLinear _) C_LoraInjectedLinear = True"
| "isinstance (LoraInjectedConv2d _) C_LoraInjectedConv2d = True"
| "isinstance (LinearSubclass _ _) C_Linear = True"
| "isinstance (Conv2dSubclass _ _) C_Conv2d = True"
| "isinstance _ _ = False"

definition matches :: "layer_class list \<Rightarrow> layer \<Rightarrow> bool" where
  "matches search_class l = list_ex (isinstance l) search_class"

fun sub_layers :: "layer \<Rightarrow> (string \<times> layer) list" where
  "sub_layers (LoraInjectedLinear l) =
     [(''linear'', Linear (linear l)), (''lora_down'', Linear (lora_down l)),
      (''dropout'', Dropout (dropout_p l) (training l)), (''lora_up'', Linear (lora_up l))]"
| "sub_layers (LoraInjectedConv2d l) =
     [(''conv'', Conv2d (conv l)), (''lora_down'', Conv2d (conv_lora_down l)),
      (''dropout'', Dropout (conv_dropout_p l) (conv_training l)), (''lora_up'', Conv2d (conv_lora_up l))]"
| "sub_layers _ = []"

text \<open>
  The default of \<^verbatim>\<open>exclude_children_of\<close>, the only value a caller in the repository
  uses: a module whose direct parent is an augmented layer is skipped.
\<close>

fun excluded :: "layer \<Rightarrow> bool" where
  "excluded (LoraInjectedLinear _) = True"
| "excluded (LoraInjectedConv2d _) = True"
| "excluded _ = False"

definition is_ancestor :: "string set option \<Rightarrow> string \<Rightarrow> bool" where
  "is_ancestor ancestor_class c = (case ancestor_class of None \<Rightarrow> True | Some S \<Rightarrow> c \<in> S)"

section \<open>The locator and the loops over it\<close>

text \<open>
  \<^verbatim>\<open>_find_modules_v2\<close> is a generator, and its callers replace modules while they iterate
  over it, so the traversal sees what the loop body did before. The embedding is the loop
  \<^verbatim>\<open>for _module, name, _child_module in _find_modules(model, ancestor_class, search_class): body\<close>
  as a whole: \<open>body name child st\<close> returns the layer the body stored in the parent's slot
  \<open>name\<close> (\<open>None\<close> when it stored nothing) and the new state of the loop's variables.

  \<open>visit_inner\<close>: the sub-layers of a layer that the traversal has reached. The
  generator descends into the object it holds, while the direct parent is looked up again by
  path, so it is the layer \<open>cur\<close> now stored in the slot. A body that stores a layer into
  another layer is outside the tree model and reported as \<open>Unmodelled\<close>.
\<close>

fun visit_inner ::
  "layer_class list \<Rightarrow> (string \<Rightarrow> layer \<Rightarrow> 's \<Rightarrow> error + (layer option \<times> 's))
     \<Rightarrow> layer \<Rightarrow> (string \<times> layer) list \<Rightarrow> 's \<Rightarrow> error + 's" where
  "visit_inner search_class body cur [] st = Inr st"
| "visit_inner search_class body cur ((n, ch) # rest) st =
     (if matches search_class ch \<and> \<not> excluded cur
      then (case body n ch st of
              Inl e \<Rightarrow> Inl e
            | Inr (Some _, _) \<Rightarrow> Inl (Unmodelled ''child of a layer replaced'')
            | Inr (None, st1) \<Rightarrow> visit_inner search_class body cur rest st1)
      else visit_inner search_class body cur rest st)"

text \<open>A layer below an ancestor; its direct parent is a container, which is never excluded.\<close>

definition visit_layer ::
  "layer_class list \<Rightarrow> (string \<Rightarrow> layer \<Rightarrow> 's \<Rightarrow> error + (layer option \<times> 's))
     \<Rightarrow> string \<Rightarrow> layer \<Rightarrow> 's \<Rightarrow> error + (layer \<times> 's)" where
  "visit_layer search_class body n l st =
     (case (if matches search_class l then body n l st else Inr (None, st)) of
        Inl e \<Rightarrow> Inl e
      | Inr (repl, st1) \<Rightarrow>
          (let cur = (case repl of None \<Rightarrow> l | Some l' \<Rightarrow> l')
           in case visit_inner search_class body cur (sub_layers l) st1 of
                Inl e \<Rightarrow> Inl e
              | Inr st2 \<Rightarrow> Inr (cur, st2)))"

text \<open>\<^verbatim>\<open>ancestor.named_modules()\<close> below the ancestor itself: parents before children.\<close>

fun visit_sub ::
  "layer_class list \<Rightarrow> (string \<Rightarrow> layer \<Rightarrow> 's \<Rightarrow> error + (layer option \<times> 's))
     \<Rightarrow> string \<Rightarrow> module \<Rightarrow> 's \<Rightarrow> error + (module \<times> 's)"
and visit_kids ::
  "layer_class list \<Rightarrow> (string \<Rightarrow> layer \<Rightarrow> 's \<Rightarrow> error + (layer option \<times> 's))
     \<Rightarrow> (string \<times> module) list \<Rightarrow> 's \<Rightarrow> error + ((string \<times> module) list \<times> 's)" where
  "visit_sub search_class body n (Layer l) st =
     (case visit_layer search_class body n l st of
        Inl e \<Rightarrow> Inl e
      | Inr (l', st') \<Rightarrow> Inr (Layer l', st'))"
| "visit_sub search_class body n (Container c ks) st =
     (case visit_kids search_class body ks st of
        Inl e \<Rightarrow> Inl e
      | Inr (ks', st') \<Rightarrow> Inr (Container c ks', st'))"
| "visit_kids search_class body [] st = Inr ([], st)"
| "visit_kids search_class body ((n, k) # ks) st =
     (case visit_sub search_class body n k st of
        Inl e \<Rightarrow> Inl e
      | Inr (k', st1) \<Rightarrow>
          (case visit_kids search_class body ks st1 of
             Inl e \<Rightarrow> Inl e
           | Inr (ks', st2) \<Rightarrow> Inr ((n, k') # ks', st2)))"

text \<open>
  The ancestor itself is the first module of its own \<^verbatim>\<open>named_modules()\<close>, under the
  empty name and with itself as the parent.
\<close>

fun visit_root ::
  "layer_class list \<Rightarrow> (string \<Rightarrow> layer \<Rightarrow> 's \<Rightarrow> error + (layer option \<times> 's))
     \<Rightarrow> module \<Rightarrow> 's \<Rightarrow> error + (module \<times> 's)" where
  "visit_root search_class body (Layer l) st =
     (case visit_inner search_class body l [([], l)] st of
        Inl e \<Rightarrow> Inl e
      | Inr st1 \<Rightarrow>
          (case visit_inner search_class body l (sub_layers l) st1 of
             Inl e \<Rightarrow> Inl e
           | Inr st2 \<Rightarrow> Inr (Layer l, st2)))"
| "visit_root search_class body (Container c ks) st =
     (case visit_kids search_class body ks st of
        Inl e \<Rightarrow> Inl e
      | Inr (ks', st') \<Rightarrow> Inr (Container c ks', st'))"

fun msize :: "module \<Rightarrow> nat" where
  "msize (Layer l) = 1"
| "msize (Container c ks) = Suc (sum_list (map (\<lambda>(n, k). msize k) ks))"

definition ksize :: "(string \<times> module) list \<Rightarrow> nat" where
  "ksize ks = sum_list (map (\<lambda>(n, k). msize k) ks)"

text \<open>
  Visiting the sub-tree of an ancestor replaces layers by layers and keeps every container,
  so the walk over the ancestors below terminates.
\<close>

lemma visit_size:
  "visit_sub s b n m st = Inr (m', st') \<Longrightarrow> msize m' = msize m"
  "visit_kids s b ks st = Inr (ks', st') \<Longrightarrow> ksize ks' = ksize ks"
proof (induction s b n m st and s b ks st arbitrary: m' st' and ks' st'
       rule: visit_sub_visit_kids.induct)
  case (1 s b n l st)
  then show ?case by (auto split: sum.splits)
next
  case (2 s b n c ks st)
  then show ?case by (auto simp: ksize_def split: sum.splits)
next
  case (3 s b st)
  then show ?case by simp
next
  case (4 s b n k ks st)
  then show ?case by (auto simp: ksize_def split: sum.splits)
qed

text \<open>
  The ancestors are the modules of \<^verbatim>\<open>model.modules()\<close> whose class name is in
  \<open>ancestor_class\<close> (every module when it is \<open>None\<close>), parents before children. That
  generator is lazy too: an ancestor's sub-tree is visited as a whole, and the walk then
  goes on into the children the visit has left. \<open>walk_inner\<close> takes the sub-layers of a
  layer as ancestors.
\<close>

fun walk_inner ::
  "string set option \<Rightarrow> layer_class list
     \<Rightarrow> (string \<Rightarrow> layer \<Rightarrow> 's \<Rightarrow> error + (layer option \<times> 's))
     \<Rightarrow> (string \<times> layer) list \<Rightarrow> 's \<Rightarrow> error + 's" where
  "walk_inner ancestor_class search_class body [] st = Inr st"
| "walk_inner ancestor_class search_class body ((n, ch) # rest) st =
     (if is_ancestor ancestor_class (layer_class_name ch)
      then (case visit_root search_class body (Layer ch) st of
              Inl e \<Rightarrow> Inl e
            | Inr (_, st1) \<Rightarrow> walk_inner ancestor_class search_class body rest st1)
      else walk_inner ancestor_class search_class body rest st)"

function walk ::
  "string set option \<Rightarrow> layer_class list
     \<Rightarrow> (string \<Rightarrow> layer \<Rightarrow> 's \<Rightarrow> error + (layer option \<times> 's))
     \<Rightarrow> module \<Rightarrow> 's \<Rightarrow> error + (module \<times> 's)"
and walk_kids ::
  "string set option \<Rightarrow> layer_class list
     \<Rightarrow> (string \<Rightarrow> layer \<Rightarrow> 's \<Rightarrow> error + (layer option \<times> 's))
     \<Rightarrow> (string \<times> module) list \<Rightarrow> 's \<Rightarrow> error + ((string \<times> module) list \<times> 's)" where
  "walk ancestor_class search_class body (Layer l) st =
     (case (if is_ancestor ancestor_class (layer_class_name l)
            then visit_root search_class body (Layer l) st else Inr (Layer l, st)) of
        Inl e \<Rightarrow> Inl e
      | Inr (_, st1) \<Rightarrow>
          (case walk_inner ancestor_class search_class body (sub_layers l) st1 of
             Inl e \<Rightarrow> Inl e
           | Inr st2 \<Rightarrow> Inr (Layer l, st2)))"
| "walk ancestor_class search_class body (Container c ks) st =
     (case (if is_ancestor ancestor_class c
            then visit_kids search_class body ks st else Inr (ks, st)) of
        Inl e \<Rightarrow> Inl e
      | Inr (ks1, st1) \<Rightarrow>
          (case walk_kids ancestor_class search_class body ks1 st1 of
             Inl e \<Rightarrow> Inl e
           | Inr (ks2, st2) \<Rightarrow> Inr (Container c ks2, st2)))"
| "walk_kids ancestor_class search_class body [] st = Inr ([], st)"
| "walk_kids ancestor_class search_class body ((n, k) # ks) st =
     (case walk ancestor_class search_class body k st of
        Inl e \<Rightarrow> Inl e
      | Inr (k', st1) \<Rightarrow>
          (case walk_kids ancestor_class search_class body ks st1 of
             Inl e \<Rightarrow> Inl e
           | Inr (ks', st2) \<Rightarrow> Inr ((n, k') # ks', st2)))"
  by pat_completeness auto
termination
proof (relation "measure (\<lambda>x. case x of
          Inl (a, s, b, m, st) \<Rightarrow> 2 * msize m
        | Inr (a, s, b, ks, st) \<Rightarrow> 2 * ksize ks + 1)", goal_cases)
  case 1
  then show ?case by simp
next
  case (2 a s b c ks st x ks1 st1)
  then show ?case
    by (auto simp: ksize_def[symmetric] dest: visit_size(2) split: if_splits)
next
  case (3 a s b n k ks st)
  then show ?case by (simp add: ksize_def)
next
  case (4 a s b n k ks st x k' st1)
  have "0 < msize k" by (cases k) simp_all
  then show ?case by (simp add: ksize_def)
qed

text \<open>
  \<^verbatim>\<open>_find_modules_v2\<close> on a model that the consumer leaves as it is: the triples it
  yields, as the name and the layer (the parent is the slot's owner and not needed here).
\<close>

definition find_modules_v2 ::
  "module \<Rightarrow> string set option \<Rightarrow> layer_class list \<Rightarrow> error + (string \<times> layer) list" where
  "find_modules_v2 model ancestor_class search_class =
     (case walk ancestor_class search_class (\<lambda>n l acc. Inr (None, acc @ [(n, l)])) model [] of
        Inl e \<Rightarrow> Inl e
      | Inr (_, acc) \<Rightarrow> Inr acc)"

text \<open>The target sets of the module.\<close>

definition UNET_DEFAULT_TARGET_REPLACE :: "string set" where
  "UNET_DEFAULT_TARGET_REPLACE = {''CrossAttention'', ''Attention'', ''GEGLU''}"

definition UNET_EXTENDED_TARGET_REPLACE :: "string set" where
  "UNET_EXTENDED_TARGET_REPLACE = {''ResnetBlock2D'', ''CrossAttention'', ''Attention'', ''GEGLU''}"

definition TEXT_ENCODER_EXTENDED_TARGET_REPLACE :: "string set" where
  "TEXT_ENCODER_EXTENDED_TARGET_REPLACE = {''CLIPAttention''}"

definition DEFAULT_TARGET_REPLACE :: "string set" where
  "DEFAULT_TARGET_REPLACE = UNET_DEFAULT_TARGET_REPLACE"

definition EMBED_FLAG :: string where
  "EMBED_FLAG = ''<embed>''"

section \<open>Injection and replacement\<close>

text \<open>
  \<^verbatim>\<open>nn.Parameter(t)\<close> is a new object around the tensor. \<open>pop0\<close> is \<^verbatim>\<open>list.pop(0)\<close>.
\<close>

definition nn_Parameter :: "tensor \<Rightarrow> alloc \<Rightarrow> param \<times> alloc" where
  "nn_Parameter t st =
     (\<lparr>pid = next_id st, requires_grad = True, pval = t\<rparr>, st\<lparr>next_id := Suc (next_id st)\<rparr>)"

definition pop0 :: "'a list \<Rightarrow> error + ('a \<times> 'a list)" where
  "pop0 xs = (case xs of [] \<Rightarrow> Inl IndexError | x # rest \<Rightarrow> Inr (x, rest))"

text \<open>
  The variables of the injection loop: the allocator, the preset tensors (\<open>None\<close> when no
  file of preset weights was given, else the loaded list), the names collected so far, and
  the variable \<^verbatim>\<open>_tmp\<close> (\<open>None\<close> while it is unbound), which outlives an iteration.
  The generators of trainable parameters that the loop also collects are views on the
  layers it has stored and are not kept.
\<close>

record inject_state =
  ialloc :: alloc
  iloras :: "tensor list option"
  inames :: "string list"
  itmp :: "layer option"

text \<open>
  The tail of both loop bodies, from \<^verbatim>\<open>if loras is not None\<close> on, applied to the weights
  of the up and the down projection of the layer just stored.
\<close>

definition install_presets ::
  "param \<Rightarrow> param \<Rightarrow> string \<Rightarrow> inject_state \<Rightarrow> error + (param \<times> param \<times> inject_state)" where
  "install_presets up_w down_w name st =
     (case (case iloras st of
              None \<Rightarrow> Inr (up_w, down_w, st)
            | Some ts \<Rightarrow>
                (case pop0 ts of Inl e \<Rightarrow> Inl e | Inr (t1, ts1) \<Rightarrow>
                  (case pop0 ts1 of Inl e \<Rightarrow> Inl e | Inr (t2, ts2) \<Rightarrow>
                    (let (p1, a1) = nn_Parameter t1 (ialloc st);
                         (p2, a2) = nn_Parameter t2 a1
                     in Inr (p1, p2, st\<lparr>ialloc := a2, iloras := Some ts2\<rparr>))))) of
        Inl e \<Rightarrow> Inl e
      | Inr (u, d, st1) \<Rightarrow>
          Inr (u\<lparr>requires_grad := True\<rparr>, d\<lparr>requires_grad := True\<rparr>,
               st1\<lparr>inames := inames st1 @ [name]\<rparr>))"

text \<open>
  The body of the loop of \<^verbatim>\<open>inject_trainable_lora\<close>. The located layer is an
  instance of \<^verbatim>\<open>nn.Linear\<close> (the search class), of the class itself or of a subclass; its
  weight and bias objects are assigned into the new layer's \<open>linear\<close>. The layer stored is
  also the value of \<^verbatim>\<open>_tmp\<close>. Reading an attribute that a module does not have is an
  \<open>AttributeError\<close>.
\<close>

definition inject_linear ::
  "(nat \<Rightarrow> real) \<Rightarrow> int \<Rightarrow> string \<Rightarrow> linear_layer \<Rightarrow> inject_state
     \<Rightarrow> error + (layer option \<times> inject_state)" where
  "inject_linear rnd r name child st =
     (case LoraInjectedLinear_init rnd (in_features child) (out_features child)
             (bias child \<noteq> None) r (ialloc st) of
        Inl e \<Rightarrow> Inl e
      | Inr (tmp, a1) \<Rightarrow>
          (let lin = (linear tmp)\<lparr>weight := weight child\<rparr>;
               lin' = (case bias child of None \<Rightarrow> lin | Some b \<Rightarrow> lin\<lparr>bias := Some b\<rparr>);
               tmp1 = tmp\<lparr>linear := lin'\<rparr>
           in case install_presets (weight (lora_up tmp1)) (weight (lora_down tmp1)) name
                     (st\<lparr>ialloc := a1\<rparr>) of
                Inl e \<Rightarrow> Inl e
              | Inr (u, d, st2) \<Rightarrow>
                  (let stored = LoraInjectedLinear
                         (tmp1\<lparr>lora_up := (lora_up tmp1)\<lparr>weight := u\<rparr>,
                                lora_down := (lora_down tmp1)\<lparr>weight := d\<rparr>\<rparr>)
                   in Inr (Some stored, st2\<lparr>itmp := Some stored\<rparr>))))"

definition inject_conv ::
  "(nat \<Rightarrow> real) \<Rightarrow> int \<Rightarrow> string \<Rightarrow> conv_layer \<Rightarrow> inject_state
     \<Rightarrow> error + (layer option \<times> inject_state)" where
  "inject_conv rnd r name child st =
     (case LoraInjectedConv2d_init rnd (in_channels child) (out_channels child)
             (kernel_size child) (stride child) (padding child) (dilation child) (groups child)
             (conv_bias child \<noteq> None) r (ialloc st) of
        Inl e \<Rightarrow> Inl e
      | Inr (tmp, a1) \<Rightarrow>
          (let cv = (conv tmp)\<lparr>conv_weight := conv_weight child\<rparr>;
               cv' = (case conv_bias child of None \<Rightarrow> cv | Some b \<Rightarrow> cv\<lparr>conv_bias := Some b\<rparr>);
               tmp1 = tmp\<lparr>conv := cv'\<rparr>
           in case install_presets (conv_weight (conv_lora_up tmp1))
                     (conv_weight (conv_lora_down tmp1)) name (st\<lparr>ialloc := a1\<rparr>) of
                Inl e \<Rightarrow> Inl e
              | Inr (u, d, st2) \<Rightarrow>
                  (let stored = LoraInjectedConv2d
                         (tmp1\<lparr>conv_lora_up := (conv_lora_up tmp1)\<lparr>conv_weight := u\<rparr>,
                                conv_lora_down := (conv_lora_down tmp1)\<lparr>conv_weight := d\<rparr>\<rparr>)
                   in Inr (Some stored, st2\<lparr>itmp := Some stored\<rparr>))))"

fun inject_body ::
  "(nat \<Rightarrow> real) \<Rightarrow> int \<Rightarrow> string \<Rightarrow> layer \<Rightarrow> inject_state
     \<Rightarrow> error + (layer option \<times> inject_state)" where
  "inject_body rnd r name (Linear child) st = inject_linear rnd r name child st"
| "inject_body rnd r name (LinearSubclass c child) st = inject_linear rnd r name child st"
| "inject_body rnd r name _ st = Inl AttributeError"

text \<open>
  The body of \<^verbatim>\<open>inject_trainable_lora_extended\<close> decides by the exact class
  (\<^verbatim>\<open>_child_module.__class__ == nn.Linear\<close>, \<^verbatim>\<open>elif ... == nn.Conv2d\<close>) and has no
  \<^verbatim>\<open>else\<close>. For a located instance of a subclass neither branch assigns \<^verbatim>\<open>_tmp\<close>, and the
  rest of the body runs with the value of the iteration before: \<open>inject_stale\<close>. While
  \<^verbatim>\<open>_tmp\<close> is unbound, reading it is an \<open>UnboundLocalError\<close>. Otherwise the module of the
  iteration before is stored in this slot too. Without preset tensors nothing else changes
  (its projections are trainable already) and the name is recorded; with preset tensors two
  are popped and assigned to that one module, which two slots now hold, and this the tree
  cannot express.
\<close>

definition inject_stale :: "string \<Rightarrow> inject_state \<Rightarrow> error + (layer option \<times> inject_state)"
  where
  "inject_stale name st =
     (case itmp st of
        None \<Rightarrow> Inl UnboundLocalError
      | Some tmp \<Rightarrow>
          (case iloras st of
             None \<Rightarrow> Inr (Some tmp, st\<lparr>inames := inames st @ [name]\<rparr>)
           | Some ts \<Rightarrow>
               (case pop0 ts of Inl e \<Rightarrow> Inl e | Inr (t1, ts1) \<Rightarrow>
                 (case pop0 ts1 of Inl e \<Rightarrow> Inl e | Inr (t2, ts2) \<Rightarrow>
                    Inl (Unmodelled ''a module held by two slots is modified'')))))"

fun inject_body_extended ::
  "(nat \<Rightarrow> real) \<Rightarrow> int \<Rightarrow> string \<Rightarrow> layer \<Rightarrow> inject_state
     \<Rightarrow> error + (layer option \<times> inject_state)" where
  "inject_body_extended rnd r name (Linear child) st = inject_linear rnd r name child st"
| "inject_body_extended rnd r name (Conv2d child) st = inject_conv rnd r name child st"
| "inject_body_extended rnd r name (LinearSubclass c child) st = inject_stale name st"
| "inject_body_extended rnd r name (Conv2dSubclass c child) st = inject_stale name st"
| "inject_body_extended rnd r name _ st =
     (case itmp st of None \<Rightarrow> Inl UnboundLocalError | Some tmp \<Rightarrow> Inl AttributeError)"

text \<open>
  \<^verbatim>\<open>inject_trainable_lora(model, target_replace_module, r, loras)\<close>: the model after the
  loop and the loop's variables. \<open>loras\<close> is the loaded list of preset tensors.
\<close>

definition inject_trainable_lora ::
  "(nat \<Rightarrow> real) \<Rightarrow> module \<Rightarrow> string set \<Rightarrow> int \<Rightarrow> tensor list option \<Rightarrow> alloc
     \<Rightarrow> error + (module \<times> inject_state)" where
  "inject_trainable_lora rnd model target_replace_module r loras a =
     walk (Some target_replace_module) [C_Linear] (inject_body rnd r) model
       \<lparr>ialloc = a, iloras = loras, inames = [], itmp = None\<rparr>"

definition inject_trainable_lora_extended ::
  "(nat \<Rightarrow> real) \<Rightarrow> module \<Rightarrow> string set \<Rightarrow> int \<Rightarrow> tensor list option \<Rightarrow> alloc
     \<Rightarrow> error + (module \<times> inject_state)" where
  "inject_trainable_lora_extended rnd model target_replace_module r loras a =
     walk (Some target_replace_module) [C_Linear, C_Conv2d] (inject_body_extended rnd r) model
       \<lparr>ialloc = a, iloras = loras, inames = [], itmp = None\<rparr>"











section \<open>Extraction and saving\<close>

text \<open>
  \<^verbatim>\<open>extract_lora_ups_down\<close>: the up and the down projection of every augmented layer
  found, as layers; an empty result is an error.
\<close>

fun ups_down :: "layer \<Rightarrow> error + (layer \<times> layer)" where
  "ups_down (LoraInjectedLinear ll) = Inr (Linear (lora_up ll), Linear (lora_down ll))"
| "ups_down (LoraInjectedConv2d lc) = Inr (Conv2d (conv_lora_up lc), Conv2d (conv_lora_down lc))"
| "ups_down _ = Inl AttributeError"

fun collect :: "('a \<Rightarrow> error + 'b) \<Rightarrow> 'a list \<Rightarrow> error + 'b list" where
  "collect f [] = Inr []"
| "collect f (x # xs) =
     (case f x of Inl e \<Rightarrow> Inl e | Inr y \<Rightarrow>
       (case collect f xs of Inl e \<Rightarrow> Inl e | Inr ys \<Rightarrow> Inr (y # ys)))"

definition extract_lora_ups_down ::
  "module \<Rightarrow> string set \<Rightarrow> error + (layer \<times> layer) list" where
  "extract_lora_ups_down model target_replace_module =
     (case find_modules_v2 model (Some target_replace_module)
             [C_LoraInjectedLinear, C_LoraInjectedConv2d] of
        Inl e \<Rightarrow> Inl e
      | Inr found \<Rightarrow>
          (case collect (\<lambda>(n, l). ups_down l) found of
             Inl e \<Rightarrow> Inl e
           | Inr loras \<Rightarrow>
               if length loras = 0 then Inl (ValueError ''No lora injected.'') else Inr loras))"

text \<open>The attribute \<^verbatim>\<open>weight\<close> of a layer, as the tensor it holds.\<close>

fun weight_of :: "layer \<Rightarrow> error + tensor" where
  "weight_of (Linear l) = Inr (pval (weight l))"
| "weight_of (Conv2d c) = Inr (pval (conv_weight c))"
| "weight_of (LinearSubclass n l) = Inr (pval (weight l))"
| "weight_of (Conv2dSubclass n c) = Inr (pval (conv_weight c))"
| "weight_of _ = Inl AttributeError"

text \<open>
  \<^verbatim>\<open>getattr(_down, "out_features")\<close>, and \<^verbatim>\<open>out_channels\<close> when that raises.
\<close>

fun rank_of :: "layer \<Rightarrow> error + int" where
  "rank_of (Linear l) = Inr (out_features l)"
| "rank_of (Conv2d c) = Inr (out_channels c)"
| "rank_of (LinearSubclass n l) = Inr (out_features l)"
| "rank_of (Conv2dSubclass n c) = Inr (out_channels c)"
| "rank_of _ = Inl AttributeError"

text \<open>\<^verbatim>\<open>str\<close> of an integer, and the keys of the container.\<close>

definition digit_char :: "nat \<Rightarrow> char" where
  "digit_char d = char_of (48 + d)"

fun str_nat :: "nat \<Rightarrow> string" where
  "str_nat n = (if n < 10 then [digit_char n] else str_nat (n div 10) @ [digit_char (n mod 10)])"

definition str_int :: "int \<Rightarrow> string" where
  "str_int i = (if i < 0 then CHR ''-'' # str_nat (nat (- i)) else str_nat (nat i))"

definition rank_key :: "string \<Rightarrow> int \<Rightarrow> string" where
  "rank_key name i = name @ '':'' @ str_int i @ '':rank''"

definition up_key :: "string \<Rightarrow> int \<Rightarrow> string" where
  "up_key name i = name @ '':'' @ str_int i @ '':up''"

definition down_key :: "string \<Rightarrow> int \<Rightarrow> string" where
  "down_key name i = name @ '':'' @ str_int i @ '':down''"

text \<open>
  What a save writes: the pickled list of \<^verbatim>\<open>torch.save\<close>, or the tensors and the
  metadata handed to \<^verbatim>\<open>safe_save\<close>. Python dictionaries are association lists in
  insertion order; an assignment to a key that is present keeps its place.
\<close>

datatype saved =
    TorchFile "tensor list"
  | SafetensorsFile "(string \<times> tensor) list" "(string \<times> string) list"

text \<open>
  The argument \<^verbatim>\<open>modelmap\<close> is untyped in the source: a dictionary from a name to a model
  and its target set (given as the list \<^verbatim>\<open>list(target_replace_module)\<close> yields), or, as
  \<^verbatim>\<open>save_lora_weight\<close> passes it, a list of tensors.
\<close>

datatype modelmap_arg =
    PyDict "(string \<times> module \<times> string list) list"
  | PyList "tensor list"

text \<open>The inner loop of the writer over \<^verbatim>\<open>enumerate(extract_lora_ups_down(...))\<close>.\<close>

fun write_layers ::
  "string \<Rightarrow> int \<Rightarrow> (layer \<times> layer) list \<Rightarrow> (string \<times> tensor) list \<times> (string \<times> string) list
     \<Rightarrow> error + ((string \<times> tensor) list \<times> (string \<times> string) list)" where
  "write_layers name i [] (weights, metadata) = Inr (weights, metadata)"
| "write_layers name i ((up, down) # rest) (weights, metadata) =
     (case rank_of down of Inl e \<Rightarrow> Inl e | Inr rank \<Rightarrow>
       (case weight_of up of Inl e \<Rightarrow> Inl e | Inr uw \<Rightarrow>
         (case weight_of down of Inl e \<Rightarrow> Inl e | Inr dw \<Rightarrow>
            write_layers name (i + 1) rest
              (AList.update (down_key name i) dw (AList.update (up_key name i) uw weights),
               AList.update (rank_key name i) (str_int rank) metadata))))"

fun write_models ::
  "(string list \<Rightarrow> string) \<Rightarrow> (string \<times> module \<times> string list) list
     \<Rightarrow> (string \<times> tensor) list \<times> (string \<times> string) list
     \<Rightarrow> error + ((string \<times> tensor) list \<times> (string \<times> string) list)" where
  "write_models dumps [] wm = Inr wm"
| "write_models dumps ((name, model, target) # rest) (weights, metadata) =
     (case extract_lora_ups_down model (set target) of
        Inl e \<Rightarrow> Inl e
      | Inr loras \<Rightarrow>
          (case write_layers name 0 loras (weights, AList.update name (dumps target) metadata) of
             Inl e \<Rightarrow> Inl e
           | Inr wm \<Rightarrow> write_models dumps rest wm))"

fun write_embeds ::
  "(string \<times> tensor) list \<Rightarrow> (string \<times> tensor) list \<times> (string \<times> string) list
     \<Rightarrow> (string \<times> tensor) list \<times> (string \<times> string) list" where
  "write_embeds [] wm = wm"
| "write_embeds ((token, t) # rest) (weights, metadata) =
     write_embeds rest (AList.update token t weights, AList.update token EMBED_FLAG metadata)"

text \<open>
  \<^verbatim>\<open>save_safeloras_with_embeds\<close>. \<open>dumps\<close> stands for \<^verbatim>\<open>json.dumps\<close> on a list of strings.
  A list has no \<^verbatim>\<open>items\<close>, so a list as \<^verbatim>\<open>modelmap\<close> is an \<open>AttributeError\<close>.
\<close>

definition save_safeloras_with_embeds ::
  "(string list \<Rightarrow> string) \<Rightarrow> modelmap_arg \<Rightarrow> (string \<times> tensor) list \<Rightarrow> error + saved" where
  "save_safeloras_with_embeds dumps modelmap embeds =
     (case modelmap of
        PyList _ \<Rightarrow> Inl AttributeError
      | PyDict items \<Rightarrow>
          (case write_models dumps items ([], []) of
             Inl e \<Rightarrow> Inl e
           | Inr wm \<Rightarrow>
               (let (weights, metadata) = write_embeds embeds wm
                in Inr (SafetensorsFile weights metadata))))"

definition save_safeloras :: "(string list \<Rightarrow> string) \<Rightarrow> modelmap_arg \<Rightarrow> error + saved" where
  "save_safeloras dumps modelmap = save_safeloras_with_embeds dumps modelmap []"

text \<open>\<^verbatim>\<open>save_lora_weight(model, path, target_replace_module, save_safetensors)\<close>.\<close>

fun up_down_weights :: "(layer \<times> layer) list \<Rightarrow> error + tensor list" where
  "up_down_weights [] = Inr []"
| "up_down_weights ((up, down) # rest) =
     (case weight_of up of Inl e \<Rightarrow> Inl e | Inr uw \<Rightarrow>
       (case weight_of down of Inl e \<Rightarrow> Inl e | Inr dw \<Rightarrow>
         (case up_down_weights rest of Inl e \<Rightarrow> Inl e | Inr ws \<Rightarrow> Inr (uw # dw # ws))))"

definition save_lora_weight ::
  "(string list \<Rightarrow> string) \<Rightarrow> module \<Rightarrow> string set \<Rightarrow> bool \<Rightarrow> error + saved" where
  "save_lora_weight dumps model target_replace_module save_safetensors =
     (case extract_lora_ups_down model target_replace_module of
        Inl e \<Rightarrow> Inl e
      | Inr loras \<Rightarrow>
          (case up_down_weights loras of
             Inl e \<Rightarrow> Inl e
           | Inr weights \<Rightarrow>
               if save_safetensors then save_safeloras dumps (PyList weights)
               else Inr (TorchFile weights)))"

section \<open>Example values\<close>

text \<open>Small concrete tensors, layers and models, used where a property is evaluated.\<close>

definition no_noise :: "nat \<Rightarrow> real" where
  "no_noise i = 0"

definition alloc0 :: alloc where
  "alloc0 = \<lparr>next_id = 10, next_sample = 0\<rparr>"

definition t2 :: tensor where
  "t2 = \<lparr>shape = [1, 1], tdata = [1]\<rparr>"


definition ex_linear :: linear_layer where
  "ex_linear = \<lparr>in_features = 1, out_features = 1,
     weight = \<lparr>pid = 0, requires_grad = False, pval = \<lparr>shape = [1, 1], tdata = [2]\<rparr>\<rparr>,
     bias = None\<rparr>"




text \<open>
  A convolution with circular padding below a residual block, and an input for it; a model
  with a dense layer and an instance of a subclass of \<^verbatim>\<open>nn.Linear\<close> below an attention
  block, in both orders.
\<close>

definition ex_circular_conv :: conv_layer where
  "ex_circular_conv = \<lparr>in_channels = 1, out_channels = 1, kernel_size = (1, 1), stride = (1, 1),
     padding = (0, 1), dilation = (1, 1), groups = 1, padding_mode = Circular,
     conv_weight = \<lparr>pid = 4, requires_grad = False, pval = \<lparr>shape = [1, 1, 1, 1], tdata = [2]\<rparr>\<rparr>,
     conv_bias = None\<rparr>"

definition ex_circular_model :: module where
  "ex_circular_model = Container ''ResnetBlock2D'' [(''conv1'', Layer (Conv2d ex_circular_conv))]"

definition ex_image :: tensor where
  "ex_image = \<lparr>shape = [1, 1, 1, 2], tdata = [1, 2]\<rparr>"

definition all_kept :: "nat \<Rightarrow> bool" where
  "all_kept i = True"

definition ex_sub_linear :: linear_layer where
  "ex_sub_linear = \<lparr>in_features = 1, out_features = 1,
     weight = \<lparr>pid = 5, requires_grad = False, pval = \<lparr>shape = [1, 1], tdata = [7]\<rparr>\<rparr>,
     bias = None\<rparr>"

definition ex_subclass_model :: module where
  "ex_subclass_model = Container ''Attention''
     [(''to_q'', Layer (Linear ex_linear)),
      (''to_k'', Layer (LinearSubclass ''LoRACompatibleLinear'' ex_sub_linear))]"

definition ex_subclass_first_model :: module where
  "ex_subclass_first_model = Container ''Attention''
     [(''to_k'', Layer (LinearSubclass ''LoRACompatibleLinear'' ex_sub_linear)),
      (''to_q'', Layer (Linear ex_linear))]"



definition ex_lora :: lora_linear where
  "ex_lora = \<lparr>linear = ex_linear,
     lora_down = \<lparr>in_features = 1, out_features = 1,
       weight = \<lparr>pid = 2, requires_grad = True, pval = \<lparr>shape = [1, 1], tdata = [3]\<rparr>\<rparr>,
       bias = None\<rparr>,
     dropout_p = 1 / 10,
     lora_up = \<lparr>in_features = 1, out_features = 1,
       weight = \<lparr>pid = 3, requires_grad = True, pval = \<lparr>shape = [1, 1], tdata = [5]\<rparr>\<rparr>,
       bias = None\<rparr>,
     scale = 1, training = False\<rparr>"

definition ex_lora_model :: module where
  "ex_lora_model = Container ''Attention'' [(''to_q'', Layer (LoraInjectedLinear ex_lora))]"

text \<open>A stand-in for \<^verbatim>\<open>json.dumps\<close> on lists of strings that need no escaping.\<close>

definition ex_dumps :: "string list \<Rightarrow> string" where
  "ex_dumps xs = ''['' @ concat (map (\<lambda>s. CHR 0x22 # s @ [CHR 0x22, CHR '','']) xs) @ '']''"

text \<open>
  The augmented layers that a fresh injection of rank 1 builds around \<open>ex_linear\<close> and
  around \<open>ex_circular_conv\<close>, with the allocator \<open>alloc0\<close> and the samples \<open>no_noise\<close>.
\<close>

definition ex_injected_linear :: lora_linear where
  "ex_injected_linear = \<lparr>linear = ex_linear,
     lora_down = \<lparr>in_features = 1, out_features = 1,
       weight = \<lparr>pid = 11, requires_grad = True, pval = \<lparr>shape = [1, 1], tdata = [0]\<rparr>\<rparr>,
       bias = None\<rparr>,
     dropout_p = 1 / 10,
     lora_up = \<lparr>in_features = 1, out_features = 1,
       weight = \<lparr>pid = 12, requires_grad = True, pval = \<lparr>shape = [1, 1], tdata = [0]\<rparr>\<rparr>,
       bias = None\<rparr>,
     scale = 1, training = True\<rparr>"

definition ex_injected_conv :: lora_conv where
  "ex_injected_conv = \<lparr>conv = ex_circular_conv\<lparr>padding_mode := Zeros\<rparr>,
     conv_lora_down = \<lparr>in_channels = 1, out_channels = 1, kernel_size = (1, 1),
       stride = (1, 1), padding = (0, 1), dilation = (1, 1), groups = 1, padding_mode = Zeros,
       conv_weight = \<lparr>pid = 11, requires_grad = True,
                      pval = \<lparr>shape = [1, 1, 1, 1], tdata = [0]\<rparr>\<rparr>,
       conv_bias = None\<rparr>,
     conv_dropout_p = 1 / 10,
     conv_lora_up = \<lparr>in_channels = 1, out_channels = 1, kernel_size = (1, 1),
       stride = (1, 1), padding = (0, 0), dilation = (1, 1), groups = 1, padding_mode = Zeros,
       conv_weight = \<lparr>pid = 12, requires_grad = True,
                      pval = \<lparr>shape = [1, 1, 1, 1], tdata = [0]\<rparr>\<rparr>,
       conv_bias = None\<rparr>,
     conv_scale = 1, conv_training = True\<rparr>"

definition ex_injected_state :: "string list \<Rightarrow> layer \<Rightarrow> inject_state" where
  "ex_injected_state names tmp =
     \<lparr>ialloc = \<lparr>next_id = 13, next_sample = 4\<rparr>, iloras = None, inames = names,
      itmp = Some tmp\<rparr>"

section \<open>A model before and after a loop over the locator\<close>

text \<open>
  \<open>no_match search m\<close>: no layer of the tree \<open>m\<close> is of a searched class.
  \<open>covered S search m\<close>: below every module of \<open>m\<close> whose class is in \<open>S\<close> there is no
  layer of a searched class, and no layer of a searched class has itself a class in \<open>S\<close>.
\<close>

fun no_match :: "layer_class list \<Rightarrow> module \<Rightarrow> bool"
and no_match_kids :: "layer_class list \<Rightarrow> (string \<times> module) list \<Rightarrow> bool" where
  "no_match search_class (Layer l) = (\<not> matches search_class l)"
| "no_match search_class (Container c ks) = no_match_kids search_class ks"
| "no_match_kids search_class [] = True"
| "no_match_kids search_class ((n, k) # ks) =
     (no_match search_class k \<and> no_match_kids search_class ks)"

fun covered :: "string set \<Rightarrow> layer_class list \<Rightarrow> module \<Rightarrow> bool"
and covered_kids :: "string set \<Rightarrow> layer_class list \<Rightarrow> (string \<times> module) list \<Rightarrow> bool" where
  "covered S search_class (Layer l) = (\<not> (matches search_class l \<and> layer_class_name l \<in> S))"
| "covered S search_class (Container c ks) =
     ((if c \<in> S then no_match_kids search_class ks else True) \<and> covered_kids S search_class ks)"
| "covered_kids S search_class [] = True"
| "covered_kids S search_class ((n, k) # ks) =
     (covered S search_class k \<and> covered_kids S search_class ks)"

text \<open>
  \<open>inj_rel S R inside m m'\<close>: the trees \<open>m\<close> and \<open>m'\<close> have the same containers and the same
  names; a layer of \<open>m\<close> that lies below a module whose class is in \<open>S\<close> is related by \<open>R\<close> to
  the layer in its place in \<open>m'\<close>, and every other layer is the same in both. \<open>inside\<close> says
  whether the root already lies below such a module.
\<close>

fun inj_rel :: "string set \<Rightarrow> (layer \<Rightarrow> layer \<Rightarrow> bool) \<Rightarrow> bool \<Rightarrow> module \<Rightarrow> module \<Rightarrow> bool"
and inj_rel_kids ::
  "string set \<Rightarrow> (layer \<Rightarrow> layer \<Rightarrow> bool) \<Rightarrow> bool \<Rightarrow> (string \<times> module) list
     \<Rightarrow> (string \<times> module) list \<Rightarrow> bool" where
  "inj_rel S R inside (Layer a) (Layer b) = (if inside then R a b else b = a)"
| "inj_rel S R inside (Container c ks) (Container c' ks') =
     (c' = c \<and> inj_rel_kids S R (inside \<or> c \<in> S) ks ks')"
| "inj_rel S R inside (Layer a) (Container c' ks') = False"
| "inj_rel S R inside (Container c ks) (Layer b) = False"
| "inj_rel_kids S R inside [] [] = True"
| "inj_rel_kids S R inside ((n, k) # ks) ((n', k') # ks') =
     (n' = n \<and> inj_rel S R inside k k' \<and> inj_rel_kids S R inside ks ks')"
| "inj_rel_kids S R inside [] (x # ks') = False"
| "inj_rel_kids S R inside (x # ks) [] = False"

section \<open>Forward passes\<close>

text \<open>
  The tensor operations of torch that the forward passes and \<^verbatim>\<open>collapse_lora\<close> call are
  not code of this repository; they are modelled as torch documents them, on real numbers.
  \<open>chop k n xs\<close> cuts row-major data into \<open>k\<close> rows of length \<open>n\<close>.
\<close>

definition chop :: "nat \<Rightarrow> nat \<Rightarrow> 'a list \<Rightarrow> 'a list list" where
  "chop k n xs = map (\<lambda>j. take n (drop (j * n) xs)) [0..<k]"

definition dot :: "real list \<Rightarrow> real list \<Rightarrow> real" where
  "dot xs ys = sum_list (map2 (*) xs ys)"

text \<open>
  \<^verbatim>\<open>F.linear(x, w, b)\<close>: \<open>w\<close> is (out, in), the last dimension of \<open>x\<close> is \<open>in\<close>, and every
  row of \<open>x\<close> is mapped to \<open>w\<close> times the row plus \<open>b\<close>.
\<close>

definition F_linear :: "tensor \<Rightarrow> tensor \<Rightarrow> tensor option \<Rightarrow> error + tensor" where
  "F_linear x w b =
     (case shape w of
        [n_out, n_in] \<Rightarrow>
          (case rev (shape x) of
             [] \<Rightarrow> Inl (RuntimeError ''input without dimensions'')
           | d # lead \<Rightarrow>
               if d \<noteq> n_in then Inl (RuntimeError ''shapes cannot be multiplied'')
               else
                 (let xrows = chop (prod_list lead) n_in (tdata x);
                      wrows = chop n_out n_in (tdata w);
                      shp = rev lead @ [n_out]
                  in case b of
                       None \<Rightarrow>
                         Inr \<lparr>shape = shp,
                              tdata = concat (map (\<lambda>r. map (\<lambda>wr. dot wr r) wrows) xrows)\<rparr>
                     | Some bt \<Rightarrow>
                         if shape bt \<noteq> [n_out] then Inl (RuntimeError ''bias shape'')
                         else
                           Inr \<lparr>shape = shp,
                                tdata = concat (map (\<lambda>r. map2 (+) (map (\<lambda>wr. dot wr r) wrows)
                                                       (tdata bt)) xrows)\<rparr>))
      | _ \<Rightarrow> Inl (RuntimeError ''weight is not 2-D''))"

text \<open>
  \<^verbatim>\<open>nn.Dropout\<close>: the identity in evaluation mode; in training mode the elements that
  this call's random draw \<open>keep\<close> does not keep are zero and the others are divided by
  \<open>1 - p\<close>.
\<close>

definition F_dropout :: "real \<Rightarrow> bool \<Rightarrow> (nat \<Rightarrow> bool) \<Rightarrow> tensor \<Rightarrow> tensor" where
  "F_dropout p train keep t =
     (if train
      then t\<lparr>tdata := map (\<lambda>(i, v). if keep i then v / (1 - p) else 0) (enumerate 0 (tdata t))\<rparr>
      else t)"

text \<open>Tensor addition for equal shapes (no broadcasting), and scaling.\<close>

definition tensor_add :: "tensor \<Rightarrow> tensor \<Rightarrow> error + tensor" where
  "tensor_add a b =
     (if shape a = shape b then Inr \<lparr>shape = shape a, tdata = map2 (+) (tdata a) (tdata b)\<rparr>
      else Inl (Unmodelled ''broadcasting''))"

definition tensor_scale :: "tensor \<Rightarrow> real \<Rightarrow> tensor" where
  "tensor_scale t c = t\<lparr>tdata := map (\<lambda>v. v * c) (tdata t)\<rparr>"

text \<open>
  \<^verbatim>\<open>F.conv2d\<close> on a batch (N, C, H, W). \<open>pixel\<close> reads the zero-padded input, \<open>patch\<close>
  is the window of one output position for one group of input channels, in the order of
  the flattened kernel (channel, row, column).
\<close>

definition pixel ::
  "tensor \<Rightarrow> nat \<Rightarrow> nat \<Rightarrow> nat \<Rightarrow> nat \<times> nat \<Rightarrow> nat \<Rightarrow> nat \<Rightarrow> nat \<Rightarrow> nat \<Rightarrow> real" where
  "pixel x ci h w pad n c py px =
     (if py < fst pad \<or> fst pad + h \<le> py \<or> px < snd pad \<or> snd pad + w \<le> px then 0
      else tdata x ! (((n * ci + c) * h + (py - fst pad)) * w + (px - snd pad)))"

definition patch ::
  "tensor \<Rightarrow> nat \<Rightarrow> nat \<Rightarrow> nat \<Rightarrow> nat \<times> nat \<Rightarrow> nat \<times> nat \<Rightarrow> nat \<times> nat \<Rightarrow> nat \<Rightarrow> nat \<times> nat
     \<Rightarrow> nat \<Rightarrow> nat \<Rightarrow> nat \<Rightarrow> nat \<Rightarrow> real list" where
  "patch x ci h w pad strd dil cig ks n g y xx =
     concat (map (\<lambda>c. concat (map (\<lambda>ky. map (\<lambda>kx.
         pixel x ci h w pad n (g * cig + c) (y * fst strd + ky * fst dil)
           (xx * snd strd + kx * snd dil))
       [0..<snd ks]) [0..<fst ks])) [0..<cig])"

definition out_size :: "nat \<Rightarrow> nat \<Rightarrow> nat \<Rightarrow> nat \<Rightarrow> nat \<Rightarrow> nat" where
  "out_size h p d k s = (h + 2 * p - d * (k - 1) - 1) div s + 1"

text \<open>
  The output data for the dimensions of the weight (co, cig, kh, kw) and of the input
  (n, ci, h, wd), in row-major order of (n, co, ho, wo); \<open>bv\<close> gives the bias of an output
  channel (zero without a bias).
\<close>

definition conv_data ::
  "tensor \<Rightarrow> tensor \<Rightarrow> (nat \<Rightarrow> real) \<Rightarrow> nat \<times> nat \<Rightarrow> nat \<times> nat \<Rightarrow> nat \<times> nat \<Rightarrow> nat
     \<Rightarrow> nat \<Rightarrow> nat \<Rightarrow> nat \<Rightarrow> nat \<Rightarrow> nat \<Rightarrow> nat \<Rightarrow> nat \<Rightarrow> nat \<Rightarrow> real list" where
  "conv_data x w bv strd pad dil g co cig kh kw n ci h wd =
     (let ho = out_size h (fst pad) (fst dil) kh (fst strd);
          wo = out_size wd (snd pad) (snd dil) kw (snd strd);
          cog = co div g;
          wrows = chop co (cig * kh * kw) (tdata w)
      in concat (map (\<lambda>n'. concat (map (\<lambda>co'. concat (map (\<lambda>y.
           map (\<lambda>xx. dot (wrows ! co')
                        (patch x ci h wd pad strd dil cig (kh, kw) n' (co' div cog) y xx)
                      + bv co')
             [0..<wo]) [0..<ho])) [0..<co])) [0..<n]))"

definition F_conv2d ::
  "tensor \<Rightarrow> tensor \<Rightarrow> tensor option \<Rightarrow> nat \<times> nat \<Rightarrow> nat \<times> nat \<Rightarrow> nat \<times> nat \<Rightarrow> int
     \<Rightarrow> error + tensor" where
  "F_conv2d x w b strd pad dil grp =
     (case shape w of
        [co, cig, kh, kw] \<Rightarrow>
          (case shape x of
             [n, ci, h, wd] \<Rightarrow>
               if length (tdata x) \<noteq> n * ci * h * wd
               then Inl (Unmodelled ''data does not fit the shape'')
               else if grp \<le> 0 \<or> int ci \<noteq> int cig * grp \<or> int co mod grp \<noteq> 0
               then Inl (RuntimeError ''channels and groups'')
               else if fst strd = 0 \<or> snd strd = 0 \<or> fst dil = 0 \<or> snd dil = 0
                       \<or> kh = 0 \<or> kw = 0
               then Inl (RuntimeError ''non-positive stride, dilation or kernel'')
               else if h + 2 * fst pad < fst dil * (kh - 1) + 1
                       \<or> wd + 2 * snd pad < snd dil * (kw - 1) + 1
               then Inl (RuntimeError ''kernel larger than padded input'')
               else
                 (let shp = [n, co, out_size h (fst pad) (fst dil) kh (fst strd),
                             out_size wd (snd pad) (snd dil) kw (snd strd)]
                  in case b of
                       None \<Rightarrow>
                         Inr \<lparr>shape = shp,
                              tdata = conv_data x w (\<lambda>c. 0) strd pad dil (nat grp)
                                        co cig kh kw n ci h wd\<rparr>
                     | Some bt \<Rightarrow>
                         if shape bt \<noteq> [co] \<or> length (tdata bt) \<noteq> co
                         then Inl (RuntimeError ''bias shape'')
                         else
                           Inr \<lparr>shape = shp,
                                tdata = conv_data x w (\<lambda>c. tdata bt ! c) strd pad dil (nat grp)
                                          co cig kh kw n ci h wd\<rparr>)
           | _ \<Rightarrow> Inl (Unmodelled ''input that is not a 4-D batch''))
      | _ \<Rightarrow> Inl (RuntimeError ''weight is not 4-D''))"

text \<open>
  \<^verbatim>\<open>F.pad\<close> of a batch (N, C, H, W) by \<open>pad\<close> rows above and below and \<open>pad\<close> columns left
  and right, in one of the modes other than zero padding. \<open>src_index mode sz p i\<close> is the
  place in the input that position \<open>i\<close> of the padded dimension reads.
\<close>

fun src_index :: "padding_mode \<Rightarrow> nat \<Rightarrow> nat \<Rightarrow> nat \<Rightarrow> nat" where
  "src_index Circular sz p i = (i + sz - p) mod sz"
| "src_index Replicate sz p i =
     (if i < p then 0 else if p + sz \<le> i then sz - 1 else i - p)"
| "src_index Reflect sz p i =
     (if i < p then p - i else if p + sz \<le> i then 2 * (sz - 1) - (i - p) else i - p)"
| "src_index Zeros sz p i = i - p"

definition F_pad :: "padding_mode \<Rightarrow> nat \<times> nat \<Rightarrow> tensor \<Rightarrow> error + tensor" where
  "F_pad mode pad x =
     (case shape x of
        [n, c, h, w] \<Rightarrow>
          if length (tdata x) \<noteq> n * c * h * w
          then Inl (Unmodelled ''data does not fit the shape'')
          else if mode = Circular \<and> (h < fst pad \<or> w < snd pad)
          then Inl (RuntimeError ''padding wraps around more than once'')
          else if mode = Reflect \<and> (h \<le> fst pad \<or> w \<le> snd pad)
          then Inl (RuntimeError ''padding not less than the input dimension'')
          else if mode = Replicate \<and> (h = 0 \<or> w = 0)
          then Inl (RuntimeError ''empty dimension'')
          else
            Inr \<lparr>shape = [n, c, h + 2 * fst pad, w + 2 * snd pad],
                 tdata = concat (map (\<lambda>n'. concat (map (\<lambda>c'. concat (map (\<lambda>y.
                           map (\<lambda>xx. tdata x ! (((n' * c + c') * h + src_index mode h (fst pad) y) * w
                                                  + src_index mode w (snd pad) xx))
                             [0..<w + 2 * snd pad]) [0..<h + 2 * fst pad])) [0..<c])) [0..<n])\<rparr>
      | _ \<Rightarrow> Inl (Unmodelled ''input that is not a 4-D batch''))"

text \<open>The forward passes of the layers.\<close>

definition linear_forward :: "linear_layer \<Rightarrow> tensor \<Rightarrow> error + tensor" where
  "linear_forward l x = F_linear x (pval (weight l)) (map_option pval (bias l))"

text \<open>
  \<^verbatim>\<open>nn.Conv2d.forward\<close>: with zero padding the padding is an argument of \<^verbatim>\<open>F.conv2d\<close>;
  with another mode the input is padded by \<^verbatim>\<open>F.pad\<close> first and convolved without padding.
\<close>

definition conv_forward :: "conv_layer \<Rightarrow> tensor \<Rightarrow> error + tensor" where
  "conv_forward c x =
     (case padding_mode c of
        Zeros \<Rightarrow>
          F_conv2d x (pval (conv_weight c)) (map_option pval (conv_bias c)) (stride c)
            (padding c) (dilation c) (groups c)
      | _ \<Rightarrow>
          (case F_pad (padding_mode c) (padding c) x of
             Inl e \<Rightarrow> Inl e
           | Inr xp \<Rightarrow>
               F_conv2d xp (pval (conv_weight c)) (map_option pval (conv_bias c)) (stride c)
                 (0, 0) (dilation c) (groups c)))"

text \<open>
  \<^verbatim>\<open>LoraInjectedLinear.forward\<close>:
  \<^verbatim>\<open>self.linear(input) + self.lora_up(self.dropout(self.lora_down(input))) * self.scale\<close>,
  the operands evaluated from left to right.
\<close>

definition lora_linear_forward :: "lora_linear \<Rightarrow> (nat \<Rightarrow> bool) \<Rightarrow> tensor \<Rightarrow> error + tensor"
  where
  "lora_linear_forward ll keep x =
     (case linear_forward (linear ll) x of Inl e \<Rightarrow> Inl e | Inr y \<Rightarrow>
       (case linear_forward (lora_down ll) x of Inl e \<Rightarrow> Inl e | Inr z \<Rightarrow>
         (case linear_forward (lora_up ll) (F_dropout (dropout_p ll) (training ll) keep z) of
            Inl e \<Rightarrow> Inl e
          | Inr u \<Rightarrow> tensor_add y (tensor_scale u (scale ll)))))"

definition lora_conv_forward :: "lora_conv \<Rightarrow> (nat \<Rightarrow> bool) \<Rightarrow> tensor \<Rightarrow> error + tensor" where
  "lora_conv_forward lc keep x =
     (case conv_forward (conv lc) x of Inl e \<Rightarrow> Inl e | Inr y \<Rightarrow>
       (case conv_forward (conv_lora_down lc) x of Inl e \<Rightarrow> Inl e | Inr z \<Rightarrow>
         (case conv_forward (conv_lora_up lc)
                 (F_dropout (conv_dropout_p lc) (conv_training lc) keep z) of
            Inl e \<Rightarrow> Inl e
          | Inr u \<Rightarrow> tensor_add y (tensor_scale u (conv_scale lc)))))"

fun layer_forward :: "layer \<Rightarrow> (nat \<Rightarrow> bool) \<Rightarrow> tensor \<Rightarrow> error + tensor" where
  "layer_forward (Linear l) keep x = linear_forward l x"
| "layer_forward (Conv2d c) keep x = conv_forward c x"
| "layer_forward (Dropout p train) keep x = Inr (F_dropout p train keep x)"
| "layer_forward (LoraInjectedLinear ll) keep x = lora_linear_forward ll keep x"
| "layer_forward (LoraInjectedConv2d lc) keep x = lora_conv_forward lc keep x"
| "layer_forward (LinearSubclass n l) keep x = Inl (Unmodelled ''forward of a subclass'')"
| "layer_forward (Conv2dSubclass n c) keep x = Inl (Unmodelled ''forward of a subclass'')"

text \<open>
  What torch guarantees of a layer it has built: the weight has the shape the layer's
  dimensions say. \<open>forward_known\<close> holds of the layers whose forward pass this file knows:
  such a layer of torch's own two classes, a dropout and the augmented layers.
\<close>

definition wf_linear :: "linear_layer \<Rightarrow> bool" where
  "wf_linear l =
     (0 \<le> in_features l \<and> 0 \<le> out_features l
      \<and> shape (pval (weight l)) = [nat (out_features l), nat (in_features l)])"

definition wf_conv :: "conv_layer \<Rightarrow> bool" where
  "wf_conv c =
     (0 \<le> in_channels c \<and> 0 \<le> out_channels c
      \<and> shape (pval (conv_weight c)) =
          [nat (out_channels c), nat (in_channels c div groups c),
           fst (kernel_size c), snd (kernel_size c)])"

fun forward_known :: "layer \<Rightarrow> bool" where
  "forward_known (Linear l) = wf_linear l"
| "forward_known (Conv2d c) = wf_conv c"
| "forward_known (LinearSubclass n l) = False"
| "forward_known (Conv2dSubclass n c) = False"
| "forward_known _ = True"

text \<open>The relations between a located layer and the layer stored in its place.\<close>

definition leaf_rel :: "layer_class list \<Rightarrow> (layer \<Rightarrow> layer \<Rightarrow> bool) \<Rightarrow> layer \<Rightarrow> layer \<Rightarrow> bool" where
  "leaf_rel search_class R a b = (if matches search_class a then R a b else b = a)"

fun keeps_refs :: "layer \<Rightarrow> layer \<Rightarrow> bool" where
  "keeps_refs (Linear l) (LoraInjectedLinear ll) =
     (weight (linear ll) = weight l \<and> bias (linear ll) = bias l)"
| "keeps_refs (Conv2d c) (LoraInjectedConv2d lc) =
     (conv_weight (conv lc) = conv_weight c \<and> conv_bias (conv lc) = conv_bias c)"
| "keeps_refs (LinearSubclass n l) (LoraInjectedLinear ll) =
     (weight (linear ll) = weight l \<and> bias (linear ll) = bias l)"
| "keeps_refs (Conv2dSubclass n c) (LoraInjectedConv2d lc) =
     (conv_weight (conv lc) = conv_weight c \<and> conv_bias (conv lc) = conv_bias c)"
| "keeps_refs _ _ = False"

definition same_forward :: "(nat \<Rightarrow> bool) \<Rightarrow> tensor \<Rightarrow> layer \<Rightarrow> layer \<Rightarrow> bool" where
  "same_forward keep x a b =
     (\<not> forward_known a \<or> layer_forward b keep x = layer_forward a keep x)"

text \<open>
  Two conditions on a loop: the layers searched for have no sub-layers and, where they are
  sub-layers of an augmented layer, a class that is not in the target set; and the body stores, for every located layer, a layer that is not searched
  for and that \<open>R\<close> relates to the located one, as long as the loop's variables satisfy
  \<open>I\<close>, which the body keeps.
\<close>

definition plain_search :: "string set \<Rightarrow> layer_class list \<Rightarrow> bool" where
  "plain_search S s =
     ((\<forall>l. matches s l \<longrightarrow> sub_layers l = [])
      \<and> (\<forall>l n ch. (n, ch) \<in> set (sub_layers l) \<longrightarrow> matches s ch \<longrightarrow> layer_class_name ch \<notin> S))"

definition body_post ::
  "layer_class list \<Rightarrow> (string \<Rightarrow> layer \<Rightarrow> 's \<Rightarrow> error + (layer option \<times> 's))
     \<Rightarrow> (layer \<Rightarrow> layer \<Rightarrow> bool) \<Rightarrow> ('s \<Rightarrow> bool) \<Rightarrow> bool" where
  "body_post s b R I = (\<forall>n l st r st'. I st \<longrightarrow> matches s l \<longrightarrow> b n l st = Inr (r, st') \<longrightarrow>
      (\<exists>l'. r = Some l' \<and> \<not> matches s l' \<and> R l l' \<and> I st'))"

text \<open>The conditions under which \<^verbatim>\<open>F.conv2d\<close> accepts its arguments.\<close>

definition conv_ok ::
  "nat \<times> nat \<Rightarrow> nat \<times> nat \<Rightarrow> nat \<times> nat \<Rightarrow> int \<Rightarrow> nat \<Rightarrow> nat \<Rightarrow> nat \<Rightarrow> nat \<Rightarrow> nat \<Rightarrow> nat \<Rightarrow> nat
     \<Rightarrow> bool" where
  "conv_ok strd pad dil grp co cig kh kw ci h wd =
     (0 < grp \<and> int ci = int cig * grp \<and> int co mod grp = 0
      \<and> 0 < fst strd \<and> 0 < snd strd \<and> 0 < fst dil \<and> 0 < snd dil \<and> 0 < kh \<and> 0 < kw
      \<and> fst dil * (kh - 1) + 1 \<le> h + 2 * fst pad \<and> snd dil * (kw - 1) + 1 \<le> wd + 2 * snd pad)"

section \<open>Verified properties\<close>

subsection \<open>Rank check of the constructors\<close>

lemma rank_too_large_linear:
  "LoraInjectedLinear_init rnd n_in n_out b (min n_in n_out + 1) st =
     Inl (ValueError ''LoRA rank must be less or equal'')"
  by (simp add: LoraInjectedLinear_init_def)

lemma rank_too_large_conv:
  "LoraInjectedConv2d_init rnd c_in c_out ks strd pad dil grp b (min c_in c_out + 1) st =
     Inl (ValueError ''LoRA rank must be less or equal'')"
  by (simp add: LoraInjectedConv2d_init_def)

lemma nn_Linear_ok:
  "0 \<le> a \<Longrightarrow> 0 \<le> b \<Longrightarrow> \<exists>l s. nn_Linear rnd a b hb st = Inr (l, s)"
  by (simp add: nn_Linear_def Let_def split: prod.splits)

lemma nn_Conv2d_ok:
  "0 \<le> a \<Longrightarrow> 0 \<le> b \<Longrightarrow> 0 < g \<Longrightarrow> a mod g = 0 \<Longrightarrow> b mod g = 0 \<Longrightarrow>
     \<exists>l s. nn_Conv2d rnd a b ks sd pd dl g hb st = Inr (l, s)"
  by (simp add: nn_Conv2d_def Let_def split: prod.splits)

lemma linear_init_ok:
  assumes "1 \<le> r" "r \<le> min n_in n_out"
  shows "\<exists>l s. LoraInjectedLinear_init rnd n_in n_out b r st = Inr (l, s)"
proof -
  from assms have pos: "0 \<le> n_in" "0 \<le> n_out" "0 \<le> r" "r \<noteq> 0" "\<not> r > min n_in n_out" by auto
  obtain l1 s1 where 1: "nn_Linear rnd n_in n_out b st = Inr (l1, s1)"
    using nn_Linear_ok[OF pos(1,2)] by blast
  obtain l2 s2 where 2: "nn_Linear rnd n_in r False s1 = Inr (l2, s2)"
    using nn_Linear_ok[OF pos(1,3)] by blast
  obtain l3 s3 where 3: "nn_Linear rnd r n_out False s2 = Inr (l3, s3)"
    using nn_Linear_ok[OF pos(3,2)] by blast
  show ?thesis
    using pos(4,5) by (simp add: LoraInjectedLinear_init_def 1 2 3 split: prod.splits)
qed

lemma conv_init_ok:
  assumes "1 \<le> r" "r \<le> min c_in c_out" "0 < grp" "c_in mod grp = 0" "c_out mod grp = 0"
    "r mod grp = 0"
  shows "\<exists>l s. LoraInjectedConv2d_init rnd c_in c_out ks strd pad dil grp b r st = Inr (l, s)"
proof -
  from assms have pos: "0 \<le> c_in" "0 \<le> c_out" "0 \<le> r" "r \<noteq> 0" "\<not> r > min c_in c_out" by auto
  obtain l1 s1 where 1: "nn_Conv2d rnd c_in c_out ks strd pad dil grp b st = Inr (l1, s1)"
    using nn_Conv2d_ok[OF pos(1,2) assms(3,4,5)] by blast
  obtain l2 s2 where 2: "nn_Conv2d rnd c_in r ks strd pad dil grp False s1 = Inr (l2, s2)"
    using nn_Conv2d_ok[OF pos(1,3) assms(3,4,6)] by blast
  obtain l3 s3 where 3: "nn_Conv2d rnd r c_out (1, 1) (1, 1) (0, 0) (1, 1) 1 False s2 = Inr (l3, s3)"
  proof -
    have "\<exists>l s. nn_Conv2d rnd r c_out (1, 1) (1, 1) (0, 0) (1, 1) 1 False s2 = Inr (l, s)"
      by (rule nn_Conv2d_ok[OF pos(3,2)]) simp_all
    then show ?thesis using that by blast
  qed
  show ?thesis
    using pos(4,5) 3 by (simp add: LoraInjectedConv2d_init_def 1 2 split: prod.splits)
qed

text \<open>
  C4 (as stated, refuted): a rank that does not exceed the bound can still fail at
  construction. With \<open>r = 0\<close> the rank check passes and \<^verbatim>\<open>std=1 / r\<close> divides by zero.
\<close>

theorem C4_rank_zero_counterexample:
  "(0::int) \<le> min 4 4 \<and>
   LoraInjectedLinear_init no_noise 4 4 False 0 alloc0 = Inl ZeroDivisionError"
  by (simp add: LoraInjectedLinear_init_def nn_Linear_def draw_def new_param_def alloc0_def
      Let_def)

text \<open>
  C4 (amended): with \<open>r = min(in, out) + 1\<close> both constructors fail with the rank error,
  whatever the other arguments are. With \<open>1 \<le> r \<le> min(in, out)\<close> the dense constructor
  returns a layer, and so does the convolutional one when \<open>groups\<close> is positive and divides
  the two channel counts and the rank (the condition of torch's own constructor).
\<close>

theorem C4_rank_check:
  "LoraInjectedLinear_init rnd n_in n_out b (min n_in n_out + 1) st =
     Inl (ValueError ''LoRA rank must be less or equal'')
   \<and> LoraInjectedConv2d_init rnd c_in c_out ks strd pad dil grp b (min c_in c_out + 1) st =
     Inl (ValueError ''LoRA rank must be less or equal'')
   \<and> (1 \<le> r \<and> r \<le> min n_in n_out \<longrightarrow>
        (\<exists>l s. LoraInjectedLinear_init rnd n_in n_out b r st = Inr (l, s)))
   \<and> (1 \<le> r \<and> r \<le> min c_in c_out \<and> 0 < grp \<and> c_in mod grp = 0 \<and> c_out mod grp = 0
        \<and> r mod grp = 0 \<longrightarrow>
        (\<exists>l s. LoraInjectedConv2d_init rnd c_in c_out ks strd pad dil grp b r st = Inr (l, s)))"
proof (intro conjI impI)
  show "LoraInjectedLinear_init rnd n_in n_out b (min n_in n_out + 1) st =
      Inl (ValueError ''LoRA rank must be less or equal'')"
    by (rule rank_too_large_linear)
  show "LoraInjectedConv2d_init rnd c_in c_out ks strd pad dil grp b (min c_in c_out + 1) st =
      Inl (ValueError ''LoRA rank must be less or equal'')"
    by (rule rank_too_large_conv)
  show "\<exists>l s. LoraInjectedLinear_init rnd n_in n_out b r st = Inr (l, s)"
    if "1 \<le> r \<and> r \<le> min n_in n_out"
    using that by (intro linear_init_ok) simp_all
  show "\<exists>l s. LoraInjectedConv2d_init rnd c_in c_out ks strd pad dil grp b r st = Inr (l, s)"
    if "1 \<le> r \<and> r \<le> min c_in c_out \<and> 0 < grp \<and> c_in mod grp = 0 \<and> c_out mod grp = 0
        \<and> r mod grp = 0"
    using that by (intro conv_init_ok) simp_all
qed

theorem C4_rank_check_witness:
  "(1::int) \<le> 4 \<and> (4::int) \<le> min 4 6
   \<and> (\<exists>l s. LoraInjectedLinear_init no_noise 4 6 True 4 alloc0 = Inr (l, s))
   \<and> (0::int) < 2 \<and> (4::int) mod 2 = 0 \<and> (6::int) mod 2 = 0
   \<and> (\<exists>l s. LoraInjectedConv2d_init no_noise 4 6 (3, 3) (1, 1) (1, 1) (1, 1) 2 True 4 alloc0
        = Inr (l, s))
   \<and> LoraInjectedLinear_init no_noise 4 6 True 5 alloc0 =
       Inl (ValueError ''LoRA rank must be less or equal'')"
  using C4_rank_check[of no_noise 4 6 True alloc0 4 6 "(3, 3)" "(1, 1)" "(1, 1)" "(1, 1)" 2 4]
  by simp

subsection \<open>Shape-class mismatch in the extended replace\<close>



lemma visit_inner_excluded:
  "excluded cur \<Longrightarrow> visit_inner search_class body cur chs st = Inr st"
  by (induction chs) auto




subsection \<open>The safetensors path of \<^verbatim>\<open>save_lora_weight\<close>\<close>

lemma collect_ups_down_weights:
  "collect (\<lambda>(n, l). ups_down l) found = Inr loras \<Longrightarrow> \<exists>ws. up_down_weights loras = Inr ws"
proof (induction found arbitrary: loras)
  case Nil
  then show ?case by auto
next
  case (Cons a found)
  obtain n l where a: "a = (n, l)" by (cases a)
  from Cons.prems a obtain p rest where p: "ups_down l = Inr p"
    and rest: "collect (\<lambda>(n, l). ups_down l) found = Inr rest" and loras: "loras = p # rest"
    by (auto split: sum.splits)
  from Cons.IH[OF rest] obtain ws where ws: "up_down_weights rest = Inr ws" by blast
  from p show ?case
    by (cases l) (auto simp: loras ws)
qed

lemma extract_weights:
  "extract_lora_ups_down model target = Inr loras \<Longrightarrow> \<exists>ws. up_down_weights loras = Inr ws"
  unfolding extract_lora_ups_down_def
  by (auto split: sum.splits if_splits dest: collect_ups_down_weights)

text \<open>
  C10: with \<^verbatim>\<open>save_safetensors=True\<close> the call never returns a file. When the model holds
  augmented layers under the target set, the error is the \<open>AttributeError\<close> of
  \<^verbatim>\<open>modelmap.items()\<close> on the list of tensors that \<^verbatim>\<open>save_safeloras\<close> is given.
\<close>

theorem C10_safetensors_save_raises:
  "(\<exists>e. save_lora_weight dumps model target True = Inl e)
   \<and> (extract_lora_ups_down model target = Inr loras \<longrightarrow>
        save_lora_weight dumps model target True = Inl AttributeError)"
proof -
  have "save_lora_weight dumps model target True = Inl AttributeError"
    if "extract_lora_ups_down model target = Inr ls" for ls
    using that extract_weights[OF that]
    by (auto simp: save_lora_weight_def save_safeloras_def save_safeloras_with_embeds_def)
  moreover have "\<exists>e. save_lora_weight dumps model target True = Inl e"
    if "extract_lora_ups_down model target = Inl e'" for e'
    using that by (simp add: save_lora_weight_def)
  ultimately show ?thesis
    by (cases "extract_lora_ups_down model target") auto
qed

theorem C10_safetensors_save_raises_witness:
  "extract_lora_ups_down ex_lora_model {''Attention''}
     = Inr [(Linear (lora_up ex_lora), Linear (lora_down ex_lora))]
   \<and> save_lora_weight ex_dumps ex_lora_model {''Attention''} True = Inl AttributeError"
proof -
  have e: "extract_lora_ups_down ex_lora_model {''Attention''}
     = Inr [(Linear (lora_up ex_lora), Linear (lora_down ex_lora))]"
    by (simp add: extract_lora_ups_down_def find_modules_v2_def ex_lora_model_def
        is_ancestor_def visit_layer_def matches_def)
  show ?thesis
    using C10_safetensors_save_raises[of ex_dumps ex_lora_model "{''Attention''}"] e by simp
qed

subsection \<open>What a loop over the locator does to the tree\<close>

lemma visit_inner_sub_layers:
  "visit_inner s b l (sub_layers l) st = Inr st"
  by (cases l) (simp_all add: visit_inner_excluded del: visit_inner.simps(2))

lemma visit_no_match:
  "no_match s m \<Longrightarrow> visit_sub s b n m st = Inr (m, st)"
  "no_match_kids s ks \<Longrightarrow> visit_kids s b ks st = Inr (ks, st)"
proof (induction s b n m st and s b ks st rule: visit_sub_visit_kids.induct)
  case (1 s b n l st)
  then show ?case by (simp add: visit_layer_def visit_inner_sub_layers)
qed simp_all

lemma no_match_covered:
  "no_match s m \<Longrightarrow> covered S s m"
  "no_match_kids s ks \<Longrightarrow> covered_kids S s ks"
  by (induction s m and s ks rule: no_match_no_match_kids.induct) simp_all

lemma visit_root_unmatched:
  "\<not> matches s l \<Longrightarrow> visit_root s b (Layer l) st = Inr (Layer l, st)"
  by (simp add: visit_inner_sub_layers)

lemma walk_inner_id:
  "\<forall>(n, ch) \<in> set chs. matches s ch \<longrightarrow> layer_class_name ch \<notin> S
     \<Longrightarrow> walk_inner (Some S) s b chs st = Inr st"
proof (induction chs)
  case Nil
  then show ?case by simp
next
  case (Cons a chs)
  obtain n ch where a: "a = (n, ch)" by (cases a)
  from Cons.prems a have m: "is_ancestor (Some S) (layer_class_name ch) \<Longrightarrow> \<not> matches s ch"
    by (auto simp: is_ancestor_def)
  from Cons show ?case
    by (simp add: a m visit_root_unmatched del: visit_root.simps)
qed

lemma walk_inner_sub_layers:
  assumes "plain_search S s"
  shows "walk_inner (Some S) s b (sub_layers l) st = Inr st"
  by (rule walk_inner_id) (use assms in \<open>auto simp: plain_search_def\<close>)

lemma walk_layer_covered:
  assumes "plain_search S s" "covered S s (Layer l)"
  shows "walk (Some S) s b (Layer l) st = Inr (Layer l, st)"
proof -
  have "\<not> matches s l" if "is_ancestor (Some S) (layer_class_name l)"
    using that assms(2) by (auto simp: is_ancestor_def)
  then show ?thesis
    by (simp add: walk_inner_sub_layers[OF assms(1)] visit_root_unmatched del: visit_root.simps)
qed

lemma walk_covered:
  "plain_search S s \<Longrightarrow> covered S s m \<Longrightarrow> walk (Some S) s b m st = Inr (m, st)"
  "plain_search S s \<Longrightarrow> covered_kids S s ks \<Longrightarrow> walk_kids (Some S) s b ks st = Inr (ks, st)"
proof (induction "Some S" s b m st and "Some S" s b ks st rule: walk_walk_kids.induct)
  case (1 s b l st)
  then show ?case by (rule walk_layer_covered)
next
  case (2 s b c ks st)
  from 2(3) have cov: "covered_kids S s ks" by simp
  have v: "c \<in> S \<Longrightarrow> visit_kids s b ks st = Inr (ks, st)"
    using 2(3) by (simp add: visit_no_match(2))
  have "walk_kids (Some S) s b ks st = Inr (ks, st)"
    by (rule 2(1)[of "(ks, st)" ks st]) (auto simp: is_ancestor_def v 2(2) cov)
  then show ?case by (auto simp: is_ancestor_def v)
next
  case (3 s b st)
  then show ?case by simp
next
  case (4 s b n k ks st)
  from 4(4) have ck: "covered S s k" and cks: "covered_kids S s ks" by simp_all
  have w: "walk (Some S) s b k st = Inr (k, st)" by (rule 4(1)[OF 4(3) ck])
  have "walk_kids (Some S) s b ks st = Inr (ks, st)"
    by (rule 4(2)[of "(k, st)" k st]) (simp_all add: w 4(3) cks)
  then show ?case by (simp add: w)
qed

lemma excluded_sub_layers: "excluded l \<Longrightarrow> sub_layers l \<noteq> []"
  by (cases l) simp_all

lemma visit_root_own_ancestor:
  assumes "plain_search S s" "body_post s b R I" "I st" "matches s l"
  shows "\<exists>e. visit_root s b (Layer l) st = Inl e"
proof -
  from assms(1,4) have "sub_layers l = []" by (simp add: plain_search_def)
  then have ne: "\<not> excluded l" using excluded_sub_layers by blast
  show ?thesis
  proof (cases "b [] l st")
    case (Inl e)
    with assms(4) ne show ?thesis by simp
  next
    case (Inr p)
    obtain r st1 where p: "p = (r, st1)" by (cases p)
    with Inr assms(2,3,4) obtain l1 where "r = Some l1"
      unfolding body_post_def by blast
    with Inr p assms(4) ne show ?thesis by simp
  qed
qed

lemma walk_layer_post:
  assumes "plain_search S s" "body_post s b R I" "I st"
    "walk (Some S) s b (Layer l) st = Inr (m', st')"
  shows "m' = Layer l \<and> st' = st \<and> covered S s (Layer l)"
proof -
  have cov: "covered S s (Layer l)"
  proof (rule ccontr)
    assume "\<not> covered S s (Layer l)"
    then have m: "matches s l" and a: "is_ancestor (Some S) (layer_class_name l)"
      by (simp_all add: is_ancestor_def)
    from visit_root_own_ancestor[OF assms(1,2,3) m] obtain e where
      "visit_root s b (Layer l) st = Inl e" by blast
    with a assms(4) show False by (simp del: visit_root.simps)
  qed
  from walk_layer_covered[OF assms(1) cov, of b st] assms(4) cov show ?thesis by simp
qed

lemma visit_layer_post:
  assumes "plain_search S s" "body_post s b R I" "I st" "visit_layer s b n l st = Inr (l', st')"
  shows "leaf_rel s R l l' \<and> \<not> matches s l' \<and> I st'"
proof (cases "matches s l")
  case True
  with assms(4) obtain r st1 where b: "b n l st = Inr (r, st1)"
    by (auto simp: visit_layer_def split: sum.splits)
  with assms(2,3) True obtain l1 where r: "r = Some l1" "\<not> matches s l1" "R l l1" "I st1"
    unfolding body_post_def by blast
  from assms(1) True have "sub_layers l = []" by (simp add: plain_search_def)
  with assms(4) True b r have "l' = l1" "st' = st1" by (simp_all add: visit_layer_def)
  with r True show ?thesis by (simp add: leaf_rel_def)
next
  case False
  with assms(3,4) show ?thesis
    by (simp add: visit_layer_def visit_inner_sub_layers leaf_rel_def)
qed

lemma visit_post:
  "plain_search S s \<Longrightarrow> body_post s b R I \<Longrightarrow> I st \<Longrightarrow> visit_sub s b n m st = Inr (m', st')
     \<Longrightarrow> inj_rel S (leaf_rel s R) True m m' \<and> no_match s m' \<and> I st'"
  "plain_search S s \<Longrightarrow> body_post s b R I \<Longrightarrow> I st \<Longrightarrow> visit_kids s b ks st = Inr (ks', st')
     \<Longrightarrow> inj_rel_kids S (leaf_rel s R) True ks ks' \<and> no_match_kids s ks' \<and> I st'"
proof (induction s b n m st and s b ks st arbitrary: m' st' and ks' st'
       rule: visit_sub_visit_kids.induct)
  case (1 s b n l st)
  from 1(4) obtain l' where v: "visit_layer s b n l st = Inr (l', st')" and m': "m' = Layer l'"
    by (auto split: sum.splits)
  from visit_layer_post[OF 1(1,2,3) v] m' show ?case by simp
next
  case (2 s b n c ks st)
  from 2(5) obtain ks' where v: "visit_kids s b ks st = Inr (ks', st')"
    and m': "m' = Container c ks'"
    by (auto split: sum.splits)
  from 2(1)[OF 2(2,3,4) v] m' show ?case by simp
next
  case (3 s b st)
  then show ?case by auto
next
  case (4 s b n k ks st)
  from 4(6) obtain k' st1 ks1 where v1: "visit_sub s b n k st = Inr (k', st1)"
    and v2: "visit_kids s b ks st1 = Inr (ks1, st')" and ks': "ks' = (n, k') # ks1"
    by (auto split: sum.splits)
  from 4(1)[OF 4(3,4,5) v1] have a: "inj_rel S (leaf_rel s R) True k k'" "no_match s k'" "I st1"
    by simp_all
  from 4(2)[OF _ _ 4(3,4) a(3) v2, of "(k', st1)"] v1 a ks' show ?case by simp
qed

lemma walk_post:
  "plain_search S s \<Longrightarrow> body_post s b R I \<Longrightarrow> I st \<Longrightarrow> walk (Some S) s b m st = Inr (m', st')
     \<Longrightarrow> inj_rel S (leaf_rel s R) False m m' \<and> covered S s m' \<and> I st'"
  "plain_search S s \<Longrightarrow> body_post s b R I \<Longrightarrow> I st
     \<Longrightarrow> walk_kids (Some S) s b ks st = Inr (ks', st')
     \<Longrightarrow> inj_rel_kids S (leaf_rel s R) False ks ks' \<and> covered_kids S s ks' \<and> I st'"
proof (induction "Some S" s b m st and "Some S" s b ks st arbitrary: m' st' and ks' st'
       rule: walk_walk_kids.induct)
  case (1 s b l st)
  from walk_layer_post[OF 1(1,2,3,4)] 1(3) show ?case by simp
next
  case (2 s b c ks st)
  show ?case
  proof (cases "c \<in> S")
    case True
    from 2(5) True obtain ks1 st1 ks2 where v: "visit_kids s b ks st = Inr (ks1, st1)"
      and w: "walk_kids (Some S) s b ks1 st1 = Inr (ks2, st')" and m': "m' = Container c ks2"
      by (auto simp: is_ancestor_def split: sum.splits)
    from visit_post(2)[OF 2(2,3,4) v] have r: "inj_rel_kids S (leaf_rel s R) True ks ks1"
      and nm: "no_match_kids s ks1" and i1: "I st1" by simp_all
    from walk_covered(2)[OF 2(2) no_match_covered(2)[OF nm], of b st1] w
    have "ks2 = ks1" "st' = st1" by simp_all
    with r nm m' True i1 show ?thesis by (simp add: no_match_covered(2))
  next
    case False
    from 2(5) False obtain ks2 where w: "walk_kids (Some S) s b ks st = Inr (ks2, st')"
      and m': "m' = Container c ks2"
      by (auto simp: is_ancestor_def split: sum.splits)
    have "inj_rel_kids S (leaf_rel s R) False ks ks2 \<and> covered_kids S s ks2 \<and> I st'"
      by (rule 2(1)[of "(ks, st)" ks st]) (simp_all add: False is_ancestor_def 2(2,3,4) w)
    with m' False show ?thesis by simp
  qed
next
  case (3 s b st)
  then show ?case by auto
next
  case (4 s b n k ks st)
  from 4(6) obtain k' st1 ks1 where w1: "walk (Some S) s b k st = Inr (k', st1)"
    and w2: "walk_kids (Some S) s b ks st1 = Inr (ks1, st')" and ks': "ks' = (n, k') # ks1"
    by (auto split: sum.splits)
  from 4(1)[OF 4(3,4,5) w1] have a: "inj_rel S (leaf_rel s R) False k k'" "covered S s k'" "I st1"
    by simp_all
  from 4(2)[OF _ _ 4(3,4) a(3) w2, of "(k', st1)"] w1 a ks' show ?case by simp
qed

subsection \<open>What the constructors and the injection body return\<close>

lemma nn_Linear_facts:
  assumes "nn_Linear rnd i o' hb a = Inr (l, a')"
  shows "0 \<le> i" "0 \<le> o'" "in_features l = i" "out_features l = o'"
    "shape (pval (weight l)) = [nat o', nat i]"
    "length (tdata (pval (weight l))) = nat o' * nat i"
    "\<not> hb \<Longrightarrow> bias l = None"
  using assms
  by (auto simp: nn_Linear_def draw_def new_param_def Let_def split: if_splits prod.splits)

lemma linear_init_facts:
  assumes "LoraInjectedLinear_init rnd i o' hb r a = Inr (tmp, a')"
  shows "0 \<le> i" "0 \<le> o'" "1 \<le> r"
    "\<not> hb \<Longrightarrow> bias (linear tmp) = None"
    "bias (lora_down tmp) = None" "bias (lora_up tmp) = None"
    "shape (pval (weight (lora_down tmp))) = [nat r, nat i]"
    "shape (pval (weight (lora_up tmp))) = [nat o', nat r]"
    "tdata (pval (weight (lora_up tmp))) = replicate (nat o' * nat r) 0"
    "scale tmp = 1"
proof -
  from assms obtain l1 a1 l2 a2 l3 a3 where
    1: "nn_Linear rnd i o' hb a = Inr (l1, a1)" and
    2: "nn_Linear rnd i r False a1 = Inr (l2, a2)" and
    3: "nn_Linear rnd r o' False a2 = Inr (l3, a3)" and
    r: "r \<noteq> 0" and
    tmp: "tmp = \<lparr>linear = l1, lora_down = l2\<lparr>weight := fst (init_normal rnd (weight l2) a3)\<rparr>,
             dropout_p = 1 / 10, lora_up = l3\<lparr>weight := init_zeros (weight l3)\<rparr>, scale = 1,
             training = True\<rparr>"
    by (auto simp: LoraInjectedLinear_init_def split: if_splits sum.splits prod.splits)
  note f1 = nn_Linear_facts[OF 1] and f2 = nn_Linear_facts[OF 2] and f3 = nn_Linear_facts[OF 3]
  show "0 \<le> i" "0 \<le> o'" by (rule f1)+
  show "1 \<le> r" using r f2(2) by simp
  show "\<not> hb \<Longrightarrow> bias (linear tmp) = None" using f1(7) by (simp add: tmp)
  show "bias (lora_down tmp) = None" "bias (lora_up tmp) = None"
    using f2(7) f3(7) by (simp_all add: tmp)
  show "shape (pval (weight (lora_down tmp))) = [nat r, nat i]"
    using f2(5) by (simp add: tmp init_normal_def draw_def split: prod.splits)
  show "shape (pval (weight (lora_up tmp))) = [nat o', nat r]"
    using f3(5) by (simp add: tmp init_zeros_def)
  show "tdata (pval (weight (lora_up tmp))) = replicate (nat o' * nat r) 0"
    using f3(6) by (simp add: tmp init_zeros_def)
  show "scale tmp = 1" by (simp add: tmp)
qed

lemma install_presets_result:
  assumes "install_presets u d name st = Inr (u', d', st')"
  shows "iloras st = None \<Longrightarrow> pval u' = pval u \<and> pval d' = pval d"
  using assms
  by (auto simp: install_presets_def split: option.splits sum.splits prod.splits)

lemma inject_linear_result:
  assumes "inject_linear rnd r name child st = Inr (res, st')"
  shows "\<exists>ll. res = Some (LoraInjectedLinear ll) \<and> weight (linear ll) = weight child
           \<and> bias (linear ll) = bias child"
proof -
  from assms obtain tmp a1 where
    i: "LoraInjectedLinear_init rnd (in_features child) (out_features child)
          (bias child \<noteq> None) r (ialloc st) = Inr (tmp, a1)"
    by (auto simp: inject_linear_def split: sum.splits)
  have b: "bias child = None \<Longrightarrow> bias (linear tmp) = None"
    using linear_init_facts(4)[OF i] by simp
  from assms i b show ?thesis
    by (auto simp: inject_linear_def Let_def split: sum.splits option.splits)
qed

lemma nn_Conv2d_Inr:
  assumes "nn_Conv2d rnd i o' ks sd pd dl g hb a = Inr (l, a')"
  shows "0 < g \<and> i mod g = 0 \<and> o' mod g = 0 \<and> 0 \<le> i \<and> 0 \<le> o'"
proof -
  have "\<not> g \<le> 0" using assms by (auto simp: nn_Conv2d_def)
  moreover have "i mod g = 0" using assms by (auto simp: nn_Conv2d_def split: if_splits)
  moreover have "o' mod g = 0" using assms by (auto simp: nn_Conv2d_def split: if_splits)
  moreover have "\<not> (i < 0 \<or> o' < 0)" using assms by (auto simp: nn_Conv2d_def split: if_splits)
  ultimately show ?thesis by auto
qed

lemma nn_Conv2d_facts:
  assumes "nn_Conv2d rnd i o' ks sd pd dl g hb a = Inr (l, a')"
  shows "0 \<le> i" "0 \<le> o'" "0 < g" "i mod g = 0" "o' mod g = 0"
    "shape (pval (conv_weight l)) = [nat o', nat (i div g), fst ks, snd ks]"
    "length (tdata (pval (conv_weight l))) = nat o' * (nat (i div g) * (fst ks * snd ks))"
    "\<not> hb \<Longrightarrow> conv_bias l = None"
    "stride l = sd" "padding l = pd" "dilation l = dl" "groups l = g" "kernel_size l = ks"
    "in_channels l = i" "out_channels l = o'" "padding_mode l = Zeros"
proof -
  note c = nn_Conv2d_Inr[OF assms]
  show "0 \<le> i" "0 \<le> o'" "0 < g" "i mod g = 0" "o' mod g = 0" using c by simp_all
  from c have n: "\<not> g \<le> 0" "\<not> (i < 0 \<or> o' < 0)" by auto
  have l: "l = fst (projr (nn_Conv2d rnd i o' ks sd pd dl g hb a))"
    by (simp add: assms)
  show "shape (pval (conv_weight l)) = [nat o', nat (i div g), fst ks, snd ks]"
    unfolding l using c n by (simp add: nn_Conv2d_def draw_def new_param_def Let_def)
  show "length (tdata (pval (conv_weight l))) = nat o' * (nat (i div g) * (fst ks * snd ks))"
    unfolding l using c n by (simp add: nn_Conv2d_def draw_def new_param_def Let_def)
  show "\<not> hb \<Longrightarrow> conv_bias l = None"
    unfolding l using c n by (simp add: nn_Conv2d_def draw_def new_param_def Let_def)
  show "stride l = sd" "padding l = pd" "dilation l = dl" "groups l = g" "kernel_size l = ks"
    "in_channels l = i" "out_channels l = o'" "padding_mode l = Zeros"
    unfolding l using c n by (simp_all add: nn_Conv2d_def draw_def new_param_def Let_def)
qed


lemma conv_init_steps:
  assumes "LoraInjectedConv2d_init rnd i o' ks sd pd dl g hb r a = Inr (tmp, a')"
  obtains l1 a1 l2 a2 l3 a3 where
    "nn_Conv2d rnd i o' ks sd pd dl g hb a = Inr (l1, a1)"
    "nn_Conv2d rnd i r ks sd pd dl g False a1 = Inr (l2, a2)"
    "nn_Conv2d rnd r o' (1, 1) (1, 1) (0, 0) (1, 1) 1 False a2 = Inr (l3, a3)"
    "r \<noteq> 0"
    "tmp = \<lparr>conv = l1,
             conv_lora_down = l2\<lparr>conv_weight := fst (init_normal rnd (conv_weight l2) a3)\<rparr>,
             conv_dropout_p = 1 / 10,
             conv_lora_up = l3\<lparr>conv_weight := init_zeros (conv_weight l3)\<rparr>, conv_scale = 1,
             conv_training = True\<rparr>"
proof -
  have nr: "\<not> r > min i o'" using assms by (auto simp: LoraInjectedConv2d_init_def)
  obtain l1 a1 where 1: "nn_Conv2d rnd i o' ks sd pd dl g hb a = Inr (l1, a1)"
    using assms nr by (cases "nn_Conv2d rnd i o' ks sd pd dl g hb a")
      (auto simp: LoraInjectedConv2d_init_def)
  obtain l2 a2 where 2: "nn_Conv2d rnd i r ks sd pd dl g False a1 = Inr (l2, a2)"
    using assms nr 1 by (cases "nn_Conv2d rnd i r ks sd pd dl g False a1")
      (auto simp: LoraInjectedConv2d_init_def)
  obtain l3 a3 where 3: "nn_Conv2d rnd r o' (1, 1) (1, 1) (0, 0) (1, 1) 1 False a2 = Inr (l3, a3)"
    using assms nr 1 2
    by (cases "nn_Conv2d rnd r o' (1, 1) (1, 1) (0, 0) (1, 1) 1 False a2")
      (auto simp: LoraInjectedConv2d_init_def)
  have r: "r \<noteq> 0" using assms nr 1 2 3 by (auto simp: LoraInjectedConv2d_init_def)
  have "tmp = \<lparr>conv = l1,
             conv_lora_down = l2\<lparr>conv_weight := fst (init_normal rnd (conv_weight l2) a3)\<rparr>,
             conv_dropout_p = 1 / 10,
             conv_lora_up = l3\<lparr>conv_weight := init_zeros (conv_weight l3)\<rparr>, conv_scale = 1,
             conv_training = True\<rparr>"
    using assms nr 1 2 3 r
    by (simp add: LoraInjectedConv2d_init_def split: prod.splits)
  with 1 2 3 r show ?thesis using that by blast
qed

lemma conv_init_facts:
  assumes "LoraInjectedConv2d_init rnd i o' ks sd pd dl g hb r a = Inr (tmp, a')"
  shows "0 \<le> i" "0 \<le> o'" "1 \<le> r" "0 < g" "i mod g = 0" "o' mod g = 0" "r mod g = 0"
    "\<not> hb \<Longrightarrow> conv_bias (conv tmp) = None"
    "conv_bias (conv_lora_down tmp) = None" "conv_bias (conv_lora_up tmp) = None"
    "shape (pval (conv_weight (conv_lora_down tmp))) = [nat r, nat (i div g), fst ks, snd ks]"
    "shape (pval (conv_weight (conv_lora_up tmp))) = [nat o', nat r, 1, 1]"
    "tdata (pval (conv_weight (conv_lora_up tmp))) = replicate (nat o' * nat r) 0"
    "conv_scale tmp = 1"
    "stride (conv tmp) = sd" "padding (conv tmp) = pd" "dilation (conv tmp) = dl"
    "groups (conv tmp) = g"
    "stride (conv_lora_down tmp) = sd" "padding (conv_lora_down tmp) = pd"
    "dilation (conv_lora_down tmp) = dl" "groups (conv_lora_down tmp) = g"
    "stride (conv_lora_up tmp) = (1, 1)" "padding (conv_lora_up tmp) = (0, 0)"
    "dilation (conv_lora_up tmp) = (1, 1)" "groups (conv_lora_up tmp) = 1"
    "padding_mode (conv tmp) = Zeros" "padding_mode (conv_lora_down tmp) = Zeros"
    "padding_mode (conv_lora_up tmp) = Zeros"
proof -
  from conv_init_steps[OF assms] obtain l1 a1 l2 a2 l3 a3 where
    1: "nn_Conv2d rnd i o' ks sd pd dl g hb a = Inr (l1, a1)" and
    2: "nn_Conv2d rnd i r ks sd pd dl g False a1 = Inr (l2, a2)" and
    3: "nn_Conv2d rnd r o' (1, 1) (1, 1) (0, 0) (1, 1) 1 False a2 = Inr (l3, a3)" and
    r: "r \<noteq> 0" and
    tmp: "tmp = \<lparr>conv = l1,
             conv_lora_down = l2\<lparr>conv_weight := fst (init_normal rnd (conv_weight l2) a3)\<rparr>,
             conv_dropout_p = 1 / 10,
             conv_lora_up = l3\<lparr>conv_weight := init_zeros (conv_weight l3)\<rparr>, conv_scale = 1,
             conv_training = True\<rparr>"
    by blast
  note f1 = nn_Conv2d_facts[OF 1] and f2 = nn_Conv2d_facts[OF 2] and f3 = nn_Conv2d_facts[OF 3]
  show "0 \<le> i" "0 \<le> o'" "0 < g" "i mod g = 0" "o' mod g = 0" by (rule f1)+
  show "r mod g = 0" by (rule f2)
  show "1 \<le> r" using r f2(2) by simp
  show "\<not> hb \<Longrightarrow> conv_bias (conv tmp) = None" using f1(8) by (simp add: tmp)
  show "conv_bias (conv_lora_down tmp) = None" "conv_bias (conv_lora_up tmp) = None"
    using f2(8) f3(8) by (simp_all add: tmp)
  show "shape (pval (conv_weight (conv_lora_down tmp))) = [nat r, nat (i div g), fst ks, snd ks]"
    using f2(6) by (simp add: tmp init_normal_def draw_def split: prod.splits)
  show "shape (pval (conv_weight (conv_lora_up tmp))) = [nat o', nat r, 1, 1]"
    using f3(6) by (simp add: tmp init_zeros_def)
  show "tdata (pval (conv_weight (conv_lora_up tmp))) = replicate (nat o' * nat r) 0"
    using f3(7) by (simp add: tmp init_zeros_def)
  show "conv_scale tmp = 1" by (simp add: tmp)
  show "stride (conv tmp) = sd" "padding (conv tmp) = pd" "dilation (conv tmp) = dl"
    "groups (conv tmp) = g"
    using f1 by (simp_all add: tmp)
  show "stride (conv_lora_down tmp) = sd" "padding (conv_lora_down tmp) = pd"
    "dilation (conv_lora_down tmp) = dl" "groups (conv_lora_down tmp) = g"
    using f2 by (simp_all add: tmp)
  show "stride (conv_lora_up tmp) = (1, 1)" "padding (conv_lora_up tmp) = (0, 0)"
    "dilation (conv_lora_up tmp) = (1, 1)" "groups (conv_lora_up tmp) = 1"
    using f3 by (simp_all add: tmp)
  show "padding_mode (conv tmp) = Zeros" "padding_mode (conv_lora_down tmp) = Zeros"
    "padding_mode (conv_lora_up tmp) = Zeros"
    using f1(16) f2(16) f3(16) by (simp_all add: tmp)
qed

lemma inject_conv_result:
  assumes "inject_conv rnd r name child st = Inr (res, st')"
  shows "\<exists>lc. res = Some (LoraInjectedConv2d lc) \<and> conv_weight (conv lc) = conv_weight child
           \<and> conv_bias (conv lc) = conv_bias child"
proof -
  from assms obtain tmp a1 where
    i: "LoraInjectedConv2d_init rnd (in_channels child) (out_channels child)
          (kernel_size child) (stride child) (padding child) (dilation child) (groups child)
          (conv_bias child \<noteq> None) r (ialloc st) = Inr (tmp, a1)"
    by (auto simp: inject_conv_def split: sum.splits)
  have b: "conv_bias child = None \<Longrightarrow> conv_bias (conv tmp) = None"
    using conv_init_facts(8)[OF i] by simp
  let ?tmp1 = "tmp\<lparr>conv := (case conv_bias child of
        None \<Rightarrow> (conv tmp)\<lparr>conv_weight := conv_weight child\<rparr>
      | Some b \<Rightarrow> (conv tmp)\<lparr>conv_weight := conv_weight child, conv_bias := Some b\<rparr>)\<rparr>"
  obtain u d st2 where
    p: "install_presets (conv_weight (conv_lora_up ?tmp1)) (conv_weight (conv_lora_down ?tmp1))
          name (st\<lparr>ialloc := a1\<rparr>) = Inr (u, d, st2)"
    using assms i
    by (cases "install_presets (conv_weight (conv_lora_up ?tmp1))
          (conv_weight (conv_lora_down ?tmp1)) name (st\<lparr>ialloc := a1\<rparr>)")
      (auto simp: inject_conv_def Let_def split: option.splits)
  from assms i p b show ?thesis
    by (cases "conv_bias child") (auto simp: inject_conv_def Let_def)
qed

lemma matches_linear:
  "matches [C_Linear] l = ((\<exists>x. l = Linear x) \<or> (\<exists>n x. l = LinearSubclass n x))"
  by (cases l) (simp_all add: matches_def)

lemma plain_search_linear: "''Linear'' \<notin> S \<Longrightarrow> plain_search S [C_Linear]"
  unfolding plain_search_def
proof (intro conjI allI impI)
  fix l assume "matches [C_Linear] l"
  then show "sub_layers l = []" by (auto simp: matches_linear)
next
  fix l n ch
  assume n: "''Linear'' \<notin> S" and c: "(n, ch) \<in> set (sub_layers l)" and m: "matches [C_Linear] ch"
  from c m have "layer_class_name ch = ''Linear''"
    by (cases l) (auto simp: matches_linear)
  with n show "layer_class_name ch \<notin> S" by simp
qed

lemma body_post_inject: "body_post [C_Linear] (inject_body rnd r) keeps_refs (\<lambda>st. True)"
  unfolding body_post_def
proof (intro allI impI)
  fix n l st res st'
  assume m: "matches [C_Linear] l" and b: "inject_body rnd r n l st = Inr (res, st')"
  from m consider x where "l = Linear x" | c x where "l = LinearSubclass c x"
    by (auto simp: matches_linear)
  then show "\<exists>l'. res = Some l' \<and> \<not> matches [C_Linear] l' \<and> keeps_refs l l' \<and> True"
  proof cases
    case 1
    with b have "inject_linear rnd r n x st = Inr (res, st')" by simp
    from inject_linear_result[OF this] 1 show ?thesis by (auto simp: matches_linear)
  next
    case 2
    with b have "inject_linear rnd r n x st = Inr (res, st')" by simp
    from inject_linear_result[OF this] 2 show ?thesis by (auto simp: matches_linear)
  qed
qed


subsection \<open>Injection: shared parameters and the second pass\<close>

text \<open>
  The dense entry point installs the located layer's own parameters: after
  \<^verbatim>\<open>inject_trainable_lora\<close> every instance of \<^verbatim>\<open>nn.Linear\<close> below a module of the target
  set, of the class itself or of a subclass, has been replaced by an augmented layer whose
  wrapped layer holds the located layer's weight and bias parameters themselves (the same
  identity, flag and tensor); every other layer and every container is as it was.
\<close>

lemma inject_trainable_lora_shares_parameters:
  assumes "''Linear'' \<notin> S"
    and "inject_trainable_lora rnd model S r loras a = Inr (m', st')"
  shows "inj_rel S (leaf_rel [C_Linear] keeps_refs) False model m'"
proof -
  have w: "walk (Some S) [C_Linear] (inject_body rnd r) model
       \<lparr>ialloc = a, iloras = loras, inames = [], itmp = None\<rparr> = Inr (m', st')"
    using assms(2) by (simp add: inject_trainable_lora_def)
  note p = plain_search_linear[OF assms(1)]
  from walk_post(1)[OF p body_post_inject _ w] show ?thesis by simp
qed

text \<open>
  C8 (the code misses the claim): \<^verbatim>\<open>inject_trainable_lora_extended\<close> locates with
  \<^verbatim>\<open>isinstance\<close> and builds the replacement under \<^verbatim>\<open>__class__ ==\<close>. A located instance of
  a subclass of \<^verbatim>\<open>nn.Linear\<close> is therefore not wrapped: its slot receives the module built
  for the layer located before it, which holds that other layer's weight, and when no layer
  was located before it the call raises \<open>UnboundLocalError\<close>.
\<close>

theorem C8_subclass_instance_gets_previous_module:
  "inject_trainable_lora_extended no_noise ex_subclass_model {''Attention''} 1 None alloc0
     = Inr (Container ''Attention''
              [(''to_q'', Layer (LoraInjectedLinear ex_injected_linear)),
               (''to_k'', Layer (LoraInjectedLinear ex_injected_linear))],
            ex_injected_state [''to_q'', ''to_k''] (LoraInjectedLinear ex_injected_linear))
   \<and> weight (linear ex_injected_linear) = weight ex_linear
   \<and> weight (linear ex_injected_linear) \<noteq> weight ex_sub_linear
   \<and> inject_trainable_lora_extended no_noise ex_subclass_first_model {''Attention''} 1 None
        alloc0 = Inl UnboundLocalError"
  by (simp add: inject_trainable_lora_extended_def ex_subclass_model_def
      ex_subclass_first_model_def is_ancestor_def visit_layer_def
      matches_def inject_linear_def inject_stale_def LoraInjectedLinear_init_def nn_Linear_def
      draw_def new_param_def init_normal_def init_zeros_def install_presets_def ex_linear_def
      ex_sub_linear_def alloc0_def Let_def no_noise_def ex_injected_linear_def
      ex_injected_state_def)



subsection \<open>Forward passes with an all-zero up projection\<close>

lemma case_list2:
  "(case xs of [a, b] \<Rightarrow> f a b | _ \<Rightarrow> g) = (if length xs = 2 then f (xs ! 0) (xs ! 1) else g)"
  by (auto split: list.splits)

lemma case_list4:
  "(case xs of [a, b, c, d] \<Rightarrow> f a b c d | _ \<Rightarrow> g)
     = (if length xs = 4 then f (xs ! 0) (xs ! 1) (xs ! 2) (xs ! 3) else g)"
  by (auto split: list.splits)

lemma dot_zeros: "\<forall>v \<in> set ws. v = 0 \<Longrightarrow> dot ws r = 0"
proof (induction ws arbitrary: r)
  case Nil
  then show ?case by (simp add: dot_def)
next
  case (Cons a ws)
  then show ?case by (cases r) (simp_all add: dot_def)
qed

lemma length_chop: "length (chop k n xs) = k"
  by (simp add: chop_def)

lemma chop_zeros: "\<forall>v \<in> set xs. v = 0 \<Longrightarrow> wr \<in> set (chop k n xs) \<Longrightarrow> \<forall>v \<in> set wr. v = 0"
  by (auto simp: chop_def dest!: in_set_takeD in_set_dropD)

lemma concat_replicate_zeros:
  "concat (map (\<lambda>r. replicate m (0::real)) xs) = replicate (length xs * m) 0"
  by (induction xs) (simp_all add: replicate_add)

lemma map_const_replicate: "(\<forall>x \<in> set xs. f x = c) \<Longrightarrow> map f xs = replicate (length xs) c"
  by (induction xs) simp_all

lemma map2_add_zeros: "length ys \<le> n \<Longrightarrow> map2 (+) ys (replicate n (0::real)) = ys"
proof (induction ys arbitrary: n)
  case Nil
  then show ?case by simp
next
  case (Cons a ys)
  then obtain m where "n = Suc m" by (cases n) auto
  with Cons show ?case by simp
qed

lemma F_linear_zero_weight:
  assumes "shape w = [n_out, n_in]" "\<forall>v \<in> set (tdata w). v = 0" "rev (shape x) = n_in # lead"
  shows "F_linear x w None
     = Inr \<lparr>shape = rev lead @ [n_out], tdata = replicate (prod_list lead * n_out) 0\<rparr>"
proof -
  have row: "map (\<lambda>wr. dot wr r) (chop n_out n_in (tdata w)) = replicate n_out 0" for r
    using map_const_replicate[of "chop n_out n_in (tdata w)" "\<lambda>wr. dot wr r" 0]
      chop_zeros[OF assms(2)] dot_zeros
    by (simp add: length_chop)
  show ?thesis
    using assms(1,3)
    by (simp add: F_linear_def row concat_replicate_zeros length_chop)
qed

lemma length_concat_le:
  "(\<forall>x \<in> set xs. length (f x) \<le> m) \<Longrightarrow> length (concat (map f xs)) \<le> length xs * m"
  by (induction xs) auto

lemma F_linear_result:
  assumes "F_linear x w b = Inr y" "shape w = [n_out, n_in]"
  shows "\<exists>lead. rev (shape x) = n_in # lead \<and> shape y = rev lead @ [n_out]
           \<and> length (tdata y) \<le> prod_list lead * n_out"
proof -
  from assms obtain d lead where r: "rev (shape x) = d # lead"
    by (cases "rev (shape x)") (auto simp: F_linear_def)
  with assms have d: "d = n_in" by (auto simp: F_linear_def split: if_splits)
  have len: "length (concat (map f (chop (prod_list lead) n_in (tdata x)))) \<le> prod_list lead * n_out"
    if "\<And>r. length (f r) \<le> n_out" for f :: "real list \<Rightarrow> real list"
    using length_concat_le[of "chop (prod_list lead) n_in (tdata x)" f n_out] that
    by (simp add: length_chop)
  show ?thesis
  proof (cases b)
    case None
    with assms r d have y: "y = \<lparr>shape = rev lead @ [n_out],
        tdata = concat (map (\<lambda>r. map (\<lambda>wr. dot wr r) (chop n_out n_in (tdata w)))
                  (chop (prod_list lead) n_in (tdata x)))\<rparr>"
      by (simp add: F_linear_def)
    show ?thesis unfolding y using r d
      by (simp add: len length_chop)
  next
    case (Some bt)
    with assms r d have y: "y = \<lparr>shape = rev lead @ [n_out],
        tdata = concat (map (\<lambda>r. map2 (+) (map (\<lambda>wr. dot wr r) (chop n_out n_in (tdata w)))
                  (tdata bt)) (chop (prod_list lead) n_in (tdata x)))\<rparr>"
      by (simp add: F_linear_def split: if_splits)
    show ?thesis unfolding y using r d
      by (simp add: len length_chop)
  qed
qed

lemma F_dropout_shape: "shape (F_dropout p train keep t) = shape t"
  by (simp add: F_dropout_def)

lemma F_dropout_length: "length (tdata (F_dropout p train keep t)) = length (tdata t)"
  by (simp add: F_dropout_def)

lemma tensor_add_zeros:
  assumes "shape u = shape y" "tdata u = replicate n 0" "length (tdata y) \<le> n"
  shows "tensor_add y (tensor_scale u c) = Inr y"
  using assms by (simp add: tensor_add_def tensor_scale_def map2_add_zeros)

lemma lora_linear_forward_zero_up:
  assumes w: "shape (pval (weight (linear ll))) = [n_out, n_in]"
    and d: "shape (pval (weight (lora_down ll))) = [r, n_in]" "bias (lora_down ll) = None"
    and u: "shape (pval (weight (lora_up ll))) = [n_out, r]" "bias (lora_up ll) = None"
      "\<forall>v \<in> set (tdata (pval (weight (lora_up ll)))). v = 0"
  shows "lora_linear_forward ll keep x = linear_forward (linear ll) x"
proof (cases "linear_forward (linear ll) x")
  case (Inl e)
  then show ?thesis by (simp add: lora_linear_forward_def)
next
  case (Inr y)
  then have fy: "F_linear x (pval (weight (linear ll))) (map_option pval (bias (linear ll))) = Inr y"
    by (simp add: linear_forward_def)
  from F_linear_result[OF fy w] obtain lead where
    sx: "rev (shape x) = n_in # lead" and sy: "shape y = rev lead @ [n_out]"
    and ly: "length (tdata y) \<le> prod_list lead * n_out" by blast
  obtain z where z: "linear_forward (lora_down ll) x = Inr z"
    using sx d by (simp add: linear_forward_def F_linear_def)
  then have fz: "F_linear x (pval (weight (lora_down ll))) None = Inr z"
    using d by (simp add: linear_forward_def)
  from F_linear_result[OF fz d(1)] sx have sz: "shape z = rev lead @ [r]" by auto
  let ?z = "F_dropout (dropout_p ll) (training ll) keep z"
  have rz: "rev (shape ?z) = r # lead" by (simp add: F_dropout_shape sz)
  have up: "linear_forward (lora_up ll) ?z
      = Inr \<lparr>shape = rev lead @ [n_out], tdata = replicate (prod_list lead * n_out) 0\<rparr>"
    using F_linear_zero_weight[OF u(1) u(3) rz] u(2) by (simp add: linear_forward_def)
  show ?thesis
    using Inr z up tensor_add_zeros[of _ y "prod_list lead * n_out"] sy ly
    by (simp add: lora_linear_forward_def)
qed

lemma length_concat_const:
  "(\<forall>x \<in> set xs. length (f x) = m) \<Longrightarrow> length (concat (map f xs)) = length xs * m"
  by (induction xs) auto

lemma concat_zeros:
  "(\<forall>x \<in> set xs. f x = replicate m (0::real)) \<Longrightarrow> concat (map f xs) = replicate (length xs * m) 0"
  by (induction xs) (simp_all add: replicate_add)

lemma nth_chop_zeros:
  assumes "\<forall>v \<in> set xs. v = 0" "j < k"
  shows "\<forall>v \<in> set (chop k n xs ! j). v = 0"
  using chop_zeros[OF assms(1), of "chop k n xs ! j" k n] assms(2)
  by (simp add: length_chop)

lemma length4: "length xs = 4 \<Longrightarrow> \<exists>a b c d. xs = [a, b, c, d]"
  by (simp add: numeral_eq_Suc length_Suc_conv) blast

lemma F_conv2d_bad_input:
  assumes "shape w = [co, cig, kh, kw]" "length (shape x) \<noteq> 4"
  shows "F_conv2d x w b strd pad dil grp = Inl (Unmodelled ''input that is not a 4-D batch'')"
  unfolding F_conv2d_def using assms by (simp add: case_list4)

lemma length_nest4:
  "length (concat (map (\<lambda>a. concat (map (\<lambda>b. concat (map (\<lambda>c. map (f a b c) [0..<l])
      [0..<k])) [0..<j])) [0..<i])) = i * (j * (k * l))"
  by (simp add: length_concat comp_def sum_list_triv)

lemma nest4_zeros:
  assumes "\<And>a b c d. b < j \<Longrightarrow> f a b c d = (0::real)"
  shows "concat (map (\<lambda>a. concat (map (\<lambda>b. concat (map (\<lambda>c. map (f a b c) [0..<l])
      [0..<k])) [0..<j])) [0..<i]) = replicate (i * (j * (k * l))) 0"
proof -
  have 1: "map (f a b c) [0..<l] = replicate l 0" if "b < j" for a b c
    using map_const_replicate[of "[0..<l]" "f a b c" 0] assms[OF that] by simp
  have 2: "concat (map (\<lambda>c. map (f a b c) [0..<l]) [0..<k]) = replicate (k * l) 0"
    if "b < j" for a b
    using concat_zeros[of "[0..<k]" "\<lambda>c. map (f a b c) [0..<l]" l] 1[OF that] by simp
  have 3: "concat (map (\<lambda>b. concat (map (\<lambda>c. map (f a b c) [0..<l]) [0..<k])) [0..<j])
      = replicate (j * (k * l)) 0" for a
    using concat_zeros[of "[0..<j]" "\<lambda>b. concat (map (\<lambda>c. map (f a b c) [0..<l]) [0..<k])"
        "k * l"] 2 by simp
  show ?thesis
    using concat_zeros[of "[0..<i]"
        "\<lambda>a. concat (map (\<lambda>b. concat (map (\<lambda>c. map (f a b c) [0..<l]) [0..<k])) [0..<j])"
        "j * (k * l)"] 3 by simp
qed

lemma length_conv_data:
  "length (conv_data x w bv strd pad dil g co cig kh kw n ci h wd)
     = n * (co * (out_size h (fst pad) (fst dil) kh (fst strd)
                  * out_size wd (snd pad) (snd dil) kw (snd strd)))"
  unfolding conv_data_def Let_def by (rule length_nest4)

lemma conv_data_zero_weight:
  assumes "\<forall>v \<in> set (tdata w). v = 0"
  shows "conv_data x w (\<lambda>c. 0) strd pad dil g co cig kh kw n ci h wd
     = replicate (n * (co * (out_size h (fst pad) (fst dil) kh (fst strd)
                  * out_size wd (snd pad) (snd dil) kw (snd strd)))) 0"
proof -
  have z: "dot (chop co (cig * kh * kw) (tdata w) ! c) p + 0 = 0" if "c < co" for c p
    using dot_zeros[OF nth_chop_zeros[OF assms that]] by simp
  show ?thesis
    unfolding conv_data_def Let_def
    by (rule nest4_zeros) (rule z)
qed

lemma F_conv2d_known:
  assumes "shape w = [co, cig, kh, kw]" "shape x = [n, ci, h, wd]"
  shows "F_conv2d x w b strd pad dil grp =
     (if length (tdata x) \<noteq> n * ci * h * wd
      then Inl (Unmodelled ''data does not fit the shape'')
      else if grp \<le> 0 \<or> int ci \<noteq> int cig * grp \<or> int co mod grp \<noteq> 0
      then Inl (RuntimeError ''channels and groups'')
      else if fst strd = 0 \<or> snd strd = 0 \<or> fst dil = 0 \<or> snd dil = 0 \<or> kh = 0 \<or> kw = 0
      then Inl (RuntimeError ''non-positive stride, dilation or kernel'')
      else if h + 2 * fst pad < fst dil * (kh - 1) + 1
              \<or> wd + 2 * snd pad < snd dil * (kw - 1) + 1
      then Inl (RuntimeError ''kernel larger than padded input'')
      else
        (case b of
           None \<Rightarrow>
             Inr \<lparr>shape = [n, co, out_size h (fst pad) (fst dil) kh (fst strd),
                          out_size wd (snd pad) (snd dil) kw (snd strd)],
                  tdata = conv_data x w (\<lambda>c. 0) strd pad dil (nat grp) co cig kh kw n ci h wd\<rparr>
         | Some bt \<Rightarrow>
             if shape bt \<noteq> [co] \<or> length (tdata bt) \<noteq> co
             then Inl (RuntimeError ''bias shape'')
             else
               Inr \<lparr>shape = [n, co, out_size h (fst pad) (fst dil) kh (fst strd),
                            out_size wd (snd pad) (snd dil) kw (snd strd)],
                    tdata = conv_data x w (\<lambda>c. tdata bt ! c) strd pad dil (nat grp)
                              co cig kh kw n ci h wd\<rparr>))"
  unfolding F_conv2d_def using assms by (simp add: Let_def)

lemma F_conv2d_ok:
  assumes "shape w = [co, cig, kh, kw]" "shape x = [n, ci, h, wd]"
    "length (tdata x) = n * ci * h * wd" "conv_ok strd pad dil grp co cig kh kw ci h wd"
  shows "F_conv2d x w None strd pad dil grp =
     Inr \<lparr>shape = [n, co, out_size h (fst pad) (fst dil) kh (fst strd),
                  out_size wd (snd pad) (snd dil) kw (snd strd)],
          tdata = conv_data x w (\<lambda>c. 0) strd pad dil (nat grp) co cig kh kw n ci h wd\<rparr>"
  using assms(3,4) unfolding F_conv2d_known[OF assms(1,2)] conv_ok_def
  by (simp add: not_less)

lemma F_conv2d_Inr:
  assumes "F_conv2d x w b strd pad dil grp = Inr y" "shape w = [co, cig, kh, kw]"
  shows "\<exists>n ci h wd. shape x = [n, ci, h, wd] \<and> length (tdata x) = n * ci * h * wd
     \<and> conv_ok strd pad dil grp co cig kh kw ci h wd
     \<and> shape y = [n, co, out_size h (fst pad) (fst dil) kh (fst strd),
                   out_size wd (snd pad) (snd dil) kw (snd strd)]
     \<and> length (tdata y) = n * (co * (out_size h (fst pad) (fst dil) kh (fst strd)
                   * out_size wd (snd pad) (snd dil) kw (snd strd)))"
proof -
  have "length (shape x) = 4"
    using F_conv2d_bad_input[OF assms(2), of x b strd pad dil grp] assms(1) by auto
  then obtain n ci h wd where sx: "shape x = [n, ci, h, wd]"
    using length4 by blast
  note k = F_conv2d_known[OF assms(2) sx, of b strd pad dil grp]
  have c1: "length (tdata x) = n * ci * h * wd"
    using assms(1) unfolding k by (simp split: if_splits)
  have c2: "\<not> (grp \<le> 0 \<or> int ci \<noteq> int cig * grp \<or> int co mod grp \<noteq> 0)"
    using assms(1) c1 unfolding k by (simp split: if_splits)
  have c3: "\<not> (fst strd = 0 \<or> snd strd = 0 \<or> fst dil = 0 \<or> snd dil = 0 \<or> kh = 0 \<or> kw = 0)"
    using assms(1) c1 c2 unfolding k by (simp split: if_splits)
  have c4: "\<not> (h + 2 * fst pad < fst dil * (kh - 1) + 1
      \<or> wd + 2 * snd pad < snd dil * (kw - 1) + 1)"
    using assms(1) c1 c2 c3 unfolding k by (simp split: if_splits)
  have ok: "conv_ok strd pad dil grp co cig kh kw ci h wd"
    using c2 c3 c4 by (simp add: conv_ok_def not_less not_le)
  have y: "shape y = [n, co, out_size h (fst pad) (fst dil) kh (fst strd),
                   out_size wd (snd pad) (snd dil) kw (snd strd)]
     \<and> length (tdata y) = n * (co * (out_size h (fst pad) (fst dil) kh (fst strd)
                   * out_size wd (snd pad) (snd dil) kw (snd strd)))"
  proof (cases b)
    case None
    then show ?thesis
      using assms(1) c1 c2 c3 c4 unfolding k by (auto simp: length_conv_data)
  next
    case (Some bt)
    then show ?thesis
      using assms(1) c1 c2 c3 c4 unfolding k by (auto simp: length_conv_data split: if_splits)
  qed
  from sx c1 ok y show ?thesis by blast
qed

lemma out_size_pos: "1 \<le> out_size h p d k s"
  by (simp add: out_size_def)

lemma out_size_unit: "1 \<le> h \<Longrightarrow> out_size h 0 (Suc 0) (Suc 0) (Suc 0) = h"
  by (simp add: out_size_def)

lemma lora_conv_forward_zero_up:
  assumes w: "shape (pval (conv_weight (conv lc))) = [co, cig, kh, kw]"
    and d: "shape (pval (conv_weight (conv_lora_down lc))) = [r, cig, kh, kw]"
      "conv_bias (conv_lora_down lc) = None"
      "stride (conv_lora_down lc) = stride (conv lc)"
      "padding (conv_lora_down lc) = padding (conv lc)"
      "dilation (conv_lora_down lc) = dilation (conv lc)"
      "groups (conv_lora_down lc) = groups (conv lc)"
      "int r mod groups (conv lc) = 0"
    and u: "shape (pval (conv_weight (conv_lora_up lc))) = [co, r, 1, 1]"
      "conv_bias (conv_lora_up lc) = None"
      "\<forall>v \<in> set (tdata (pval (conv_weight (conv_lora_up lc)))). v = 0"
      "stride (conv_lora_up lc) = (1, 1)" "padding (conv_lora_up lc) = (0, 0)"
      "dilation (conv_lora_up lc) = (1, 1)" "groups (conv_lora_up lc) = 1"
    and z: "padding_mode (conv lc) = Zeros" "padding_mode (conv_lora_down lc) = Zeros"
      "padding_mode (conv_lora_up lc) = Zeros"
  shows "lora_conv_forward lc keep x = conv_forward (conv lc) x"
proof (cases "conv_forward (conv lc) x")
  case (Inl e)
  then show ?thesis by (simp add: lora_conv_forward_def)
next
  case (Inr y)
  let ?s = "stride (conv lc)" and ?p = "padding (conv lc)" and ?d = "dilation (conv lc)"
    and ?g = "groups (conv lc)"
  from Inr have fy: "F_conv2d x (pval (conv_weight (conv lc)))
      (map_option pval (conv_bias (conv lc))) ?s ?p ?d ?g = Inr y"
    by (simp add: conv_forward_def z)
  from F_conv2d_Inr[OF fy w] obtain n ci h wd where
    sx: "shape x = [n, ci, h, wd]" and lx: "length (tdata x) = n * ci * h * wd"
    and ok: "conv_ok ?s ?p ?d ?g co cig kh kw ci h wd"
    and sy: "shape y = [n, co, out_size h (fst ?p) (fst ?d) kh (fst ?s),
                   out_size wd (snd ?p) (snd ?d) kw (snd ?s)]"
    and ly: "length (tdata y) = n * (co * (out_size h (fst ?p) (fst ?d) kh (fst ?s)
                   * out_size wd (snd ?p) (snd ?d) kw (snd ?s)))"
    by blast
  let ?ho = "out_size h (fst ?p) (fst ?d) kh (fst ?s)"
  let ?wo = "out_size wd (snd ?p) (snd ?d) kw (snd ?s)"
  have okd: "conv_ok ?s ?p ?d ?g r cig kh kw ci h wd"
    using ok d(7) by (simp add: conv_ok_def)
  define z where "z = \<lparr>shape = [n, r, ?ho, ?wo],
      tdata = conv_data x (pval (conv_weight (conv_lora_down lc))) (\<lambda>c. 0) ?s ?p ?d (nat ?g)
                r cig kh kw n ci h wd\<rparr>"
  have fz: "conv_forward (conv_lora_down lc) x = Inr z"
    using F_conv2d_ok[OF d(1) sx lx okd] d(2-6) by (simp add: conv_forward_def z_def z)
  let ?z = "F_dropout (conv_dropout_p lc) (conv_training lc) keep z"
  have sz: "shape ?z = [n, r, ?ho, ?wo]" by (simp add: F_dropout_shape z_def)
  have lz: "length (tdata ?z) = n * r * ?ho * ?wo"
    by (simp add: F_dropout_length z_def length_conv_data)
  have oku: "conv_ok (1, 1) (0, 0) (1, 1) 1 co r 1 1 r ?ho ?wo"
    using out_size_pos[of h "fst ?p" "fst ?d" kh "fst ?s"]
      out_size_pos[of wd "snd ?p" "snd ?d" kw "snd ?s"]
    by (simp add: conv_ok_def)
  have fu: "conv_forward (conv_lora_up lc) ?z
      = Inr \<lparr>shape = [n, co, ?ho, ?wo], tdata = replicate (n * (co * (?ho * ?wo))) 0\<rparr>"
    using F_conv2d_ok[OF u(1) sz lz oku] u(2,4-7)
      out_size_pos[of h "fst ?p" "fst ?d" kh "fst ?s"]
      out_size_pos[of wd "snd ?p" "snd ?d" kw "snd ?s"]
    by (simp add: conv_forward_def conv_data_zero_weight[OF u(3)] out_size_unit z)
  show ?thesis
    using Inr fz fu tensor_add_zeros[of _ y "n * (co * (?ho * ?wo))"] sy ly
    by (simp add: lora_conv_forward_def)
qed

lemma install_presets_fresh:
  assumes "install_presets u d name st = Inr (u', d', st')" "iloras st = None"
  shows "pval u' = pval u" "pval d' = pval d" "iloras st' = None"
  using assms
  by (auto simp: install_presets_def split: option.splits sum.splits prod.splits)

lemma inject_linear_fresh_forward:
  assumes i: "inject_linear rnd r name child st = Inr (res, st')" and n: "iloras st = None"
  shows "\<exists>ll. res = Some (LoraInjectedLinear ll)
           \<and> (wf_linear child \<longrightarrow> lora_linear_forward ll keep x = linear_forward child x)
           \<and> iloras st' = None"
proof -
  from i obtain tmp a1 where
    c: "LoraInjectedLinear_init rnd (in_features child) (out_features child)
          (bias child \<noteq> None) r (ialloc st) = Inr (tmp, a1)"
    by (auto simp: inject_linear_def split: sum.splits)
  note f = linear_init_facts[OF c]
  let ?lin = "(case bias child of
        None \<Rightarrow> (linear tmp)\<lparr>weight := weight child\<rparr>
      | Some b \<Rightarrow> (linear tmp)\<lparr>weight := weight child, bias := Some b\<rparr>)"
  let ?tmp1 = "tmp\<lparr>linear := ?lin\<rparr>"
  obtain u d st2 where
    p: "install_presets (weight (lora_up ?tmp1)) (weight (lora_down ?tmp1))
          name (st\<lparr>ialloc := a1\<rparr>) = Inr (u, d, st2)"
    using i c
    by (cases "install_presets (weight (lora_up ?tmp1))
          (weight (lora_down ?tmp1)) name (st\<lparr>ialloc := a1\<rparr>)")
      (auto simp: inject_linear_def Let_def split: option.splits)
  define ll where "ll = ?tmp1\<lparr>lora_up := (lora_up ?tmp1)\<lparr>weight := u\<rparr>,
                              lora_down := (lora_down ?tmp1)\<lparr>weight := d\<rparr>\<rparr>"
  have res: "res = Some (LoraInjectedLinear ll)"
    and st': "st' = st2\<lparr>itmp := Some (LoraInjectedLinear ll)\<rparr>"
    using i c p by (cases "bias child"; simp add: inject_linear_def Let_def ll_def)+
  have n1: "iloras (st\<lparr>ialloc := a1\<rparr>) = None" using n by simp
  note q = install_presets_fresh[OF p n1]
  have lin: "weight (linear ll) = weight child" "bias (linear ll) = bias child"
    using f(4) by (cases "bias child"; simp add: ll_def)+
  have fwd: "lora_linear_forward ll keep x = linear_forward child x" if wf: "wf_linear child"
  proof -
    have w: "shape (pval (weight (linear ll)))
        = [nat (out_features child), nat (in_features child)]"
      using wf lin by (simp add: wf_linear_def)
    have d: "shape (pval (weight (lora_down ll))) = [nat r, nat (in_features child)]"
      "bias (lora_down ll) = None"
      using q(2) f(5,7) by (simp_all add: ll_def)
    have u: "shape (pval (weight (lora_up ll))) = [nat (out_features child), nat r]"
      "bias (lora_up ll) = None"
      "\<forall>v \<in> set (tdata (pval (weight (lora_up ll)))). v = 0"
      using q(1) f(6,8,9) by (simp_all add: ll_def)
    have "lora_linear_forward ll keep x = linear_forward (linear ll) x"
      by (rule lora_linear_forward_zero_up[OF w d u])
    then show ?thesis by (simp add: linear_forward_def lin)
  qed
  from res fwd q(3) st' show ?thesis by simp
qed

lemma inject_conv_fresh_forward:
  assumes i: "inject_conv rnd r name child st = Inr (res, st')" and n: "iloras st = None"
  shows "\<exists>lc. res = Some (LoraInjectedConv2d lc)
           \<and> (wf_conv child \<and> padding_mode child = Zeros \<longrightarrow>
                lora_conv_forward lc keep x = conv_forward child x)
           \<and> iloras st' = None"
proof -
  from i obtain tmp a1 where
    c: "LoraInjectedConv2d_init rnd (in_channels child) (out_channels child)
          (kernel_size child) (stride child) (padding child) (dilation child) (groups child)
          (conv_bias child \<noteq> None) r (ialloc st) = Inr (tmp, a1)"
    by (auto simp: inject_conv_def split: sum.splits)
  note f = conv_init_facts[OF c]
  let ?cv = "(case conv_bias child of
        None \<Rightarrow> (conv tmp)\<lparr>conv_weight := conv_weight child\<rparr>
      | Some b \<Rightarrow> (conv tmp)\<lparr>conv_weight := conv_weight child, conv_bias := Some b\<rparr>)"
  let ?tmp1 = "tmp\<lparr>conv := ?cv\<rparr>"
  obtain u d st2 where
    p: "install_presets (conv_weight (conv_lora_up ?tmp1)) (conv_weight (conv_lora_down ?tmp1))
          name (st\<lparr>ialloc := a1\<rparr>) = Inr (u, d, st2)"
    using i c
    by (cases "install_presets (conv_weight (conv_lora_up ?tmp1))
          (conv_weight (conv_lora_down ?tmp1)) name (st\<lparr>ialloc := a1\<rparr>)")
      (auto simp: inject_conv_def Let_def split: option.splits)
  define lc where "lc = ?tmp1\<lparr>conv_lora_up := (conv_lora_up ?tmp1)\<lparr>conv_weight := u\<rparr>,
                              conv_lora_down := (conv_lora_down ?tmp1)\<lparr>conv_weight := d\<rparr>\<rparr>"
  have res: "res = Some (LoraInjectedConv2d lc)"
    and st': "st' = st2\<lparr>itmp := Some (LoraInjectedConv2d lc)\<rparr>"
    using i c p by (cases "conv_bias child"; simp add: inject_conv_def Let_def lc_def)+
  have n1: "iloras (st\<lparr>ialloc := a1\<rparr>) = None" using n by simp
  note q = install_presets_fresh[OF p n1]
  have cv: "conv_weight (conv lc) = conv_weight child" "conv_bias (conv lc) = conv_bias child"
    "stride (conv lc) = stride child" "padding (conv lc) = padding child"
    "dilation (conv lc) = dilation child" "groups (conv lc) = groups child"
    "padding_mode (conv lc) = Zeros"
    using f(8,15-18,27) by (cases "conv_bias child"; simp add: lc_def)+
  have fwd: "lora_conv_forward lc keep x = conv_forward child x"
    if wf: "wf_conv child" and zp: "padding_mode child = Zeros"
  proof -
    let ?co = "nat (out_channels child)" and ?cig = "nat (in_channels child div groups child)"
    have w: "shape (pval (conv_weight (conv lc)))
        = [?co, ?cig, fst (kernel_size child), snd (kernel_size child)]"
      using wf cv by (simp add: wf_conv_def)
    have d: "shape (pval (conv_weight (conv_lora_down lc)))
        = [nat r, ?cig, fst (kernel_size child), snd (kernel_size child)]"
      "conv_bias (conv_lora_down lc) = None"
      "stride (conv_lora_down lc) = stride (conv lc)"
      "padding (conv_lora_down lc) = padding (conv lc)"
      "dilation (conv_lora_down lc) = dilation (conv lc)"
      "groups (conv_lora_down lc) = groups (conv lc)"
      using q(2) f(9,11,19-22) cv by (simp_all add: lc_def)
    have rg: "int (nat r) mod groups (conv lc) = 0"
      using f(3,7) cv by simp
    have u: "shape (pval (conv_weight (conv_lora_up lc))) = [?co, nat r, 1, 1]"
      "conv_bias (conv_lora_up lc) = None"
      "\<forall>v \<in> set (tdata (pval (conv_weight (conv_lora_up lc)))). v = 0"
      "stride (conv_lora_up lc) = (1, 1)" "padding (conv_lora_up lc) = (0, 0)"
      "dilation (conv_lora_up lc) = (1, 1)" "groups (conv_lora_up lc) = 1"
      using q(1) f(10,12,13,23-26) by (simp_all add: lc_def)
    have z: "padding_mode (conv lc) = Zeros" "padding_mode (conv_lora_down lc) = Zeros"
      "padding_mode (conv_lora_up lc) = Zeros"
      using f(27-29) cv by (simp_all add: lc_def)
    have "lora_conv_forward lc keep x = conv_forward (conv lc) x"
      by (rule lora_conv_forward_zero_up[OF w d rg u z])
    then show ?thesis by (simp add: conv_forward_def cv zp)
  qed
  from res fwd q(3) st' show ?thesis by simp
qed

lemma body_post_inject_forward:
  "body_post [C_Linear] (inject_body rnd r) (same_forward keep x) (\<lambda>st. iloras st = None)"
  unfolding body_post_def
proof (intro allI impI)
  fix n l st res st'
  assume i: "iloras st = None" and m: "matches [C_Linear] l"
    and b: "inject_body rnd r n l st = Inr (res, st')"
  from m consider c where "l = Linear c" | k c where "l = LinearSubclass k c"
    by (auto simp: matches_linear)
  then show "\<exists>l'. res = Some l' \<and> \<not> matches [C_Linear] l' \<and> same_forward keep x l l'
      \<and> iloras st' = None"
  proof cases
    case 1
    with b have "inject_linear rnd r n c st = Inr (res, st')" by simp
    from inject_linear_fresh_forward[OF this i, of keep x] 1 show ?thesis
      by (auto simp: matches_linear same_forward_def)
  next
    case 2
    with b have "inject_linear rnd r n c st = Inr (res, st')" by simp
    from inject_linear_fresh_forward[OF this i, of keep x] 2 show ?thesis
      by (auto simp: matches_linear same_forward_def)
  qed
qed

text \<open>
  The dense entry point preserves the forward pass: after a fresh
  \<^verbatim>\<open>inject_trainable_lora\<close> every replaced \<^verbatim>\<open>nn.Linear\<close> that torch has built computes, wrapped,
  the result it computed before, on every input and for every draw of the dropout.
\<close>

lemma inject_trainable_lora_preserves_forward:
  assumes "''Linear'' \<notin> S"
    and "inject_trainable_lora rnd model S r None a = Inr (m', st')"
  shows "inj_rel S (leaf_rel [C_Linear] (same_forward keep x)) False model m'"
proof -
  have w: "walk (Some S) [C_Linear] (inject_body rnd r) model
       \<lparr>ialloc = a, iloras = None, inames = [], itmp = None\<rparr> = Inr (m', st')"
    using assms(2) by (simp add: inject_trainable_lora_def)
  note p = plain_search_linear[OF assms(1)]
  from walk_post(1)[OF p body_post_inject_forward _ w, of keep x] show ?thesis by simp
qed

text \<open>
  C1 (the code misses the claim): the extended entry point rebuilds a located convolution
  from its channels, kernel, stride, padding, dilation, groups and bias, and not from its
  padding mode, so the wrapped convolution pads with zeros. A located convolution with
  circular padding computes another result right after a fresh injection: on the input
  (1, 2) the layer gave (4, 2, 4, 2) and the augmented layer in its place gives (0, 2, 4, 0).
\<close>

theorem C1_circular_padding_forward_changes:
  "inject_trainable_lora_extended no_noise ex_circular_model UNET_EXTENDED_TARGET_REPLACE 1 None
     alloc0
     = Inr (Container ''ResnetBlock2D'' [(''conv1'', Layer (LoraInjectedConv2d ex_injected_conv))],
            ex_injected_state [''conv1''] (LoraInjectedConv2d ex_injected_conv))
   \<and> layer_forward (Conv2d ex_circular_conv) all_kept ex_image
       = Inr \<lparr>shape = [1, 1, 1, 4], tdata = [4, 2, 4, 2]\<rparr>
   \<and> layer_forward (LoraInjectedConv2d ex_injected_conv) all_kept ex_image
       = Inr \<lparr>shape = [1, 1, 1, 4], tdata = [0, 2, 4, 0]\<rparr>"
proof (intro conjI)
  show "inject_trainable_lora_extended no_noise ex_circular_model UNET_EXTENDED_TARGET_REPLACE 1
      None alloc0
     = Inr (Container ''ResnetBlock2D'' [(''conv1'', Layer (LoraInjectedConv2d ex_injected_conv))],
            ex_injected_state [''conv1''] (LoraInjectedConv2d ex_injected_conv))"
    by (simp add: inject_trainable_lora_extended_def ex_circular_model_def
        UNET_EXTENDED_TARGET_REPLACE_def is_ancestor_def visit_layer_def matches_def
        inject_conv_def LoraInjectedConv2d_init_def nn_Conv2d_def draw_def new_param_def
        init_normal_def init_zeros_def install_presets_def ex_circular_conv_def alloc0_def
        Let_def no_noise_def ex_injected_conv_def ex_injected_state_def)
  show "layer_forward (Conv2d ex_circular_conv) all_kept ex_image
       = Inr \<lparr>shape = [1, 1, 1, 4], tdata = [4, 2, 4, 2]\<rparr>"
    by (simp add: conv_forward_def F_pad_def F_conv2d_def conv_data_def patch_def pixel_def
        chop_def dot_def out_size_def ex_circular_conv_def ex_image_def Let_def
        upt_conv_Cons nth_Cons')
  show "layer_forward (LoraInjectedConv2d ex_injected_conv) all_kept ex_image
       = Inr \<lparr>shape = [1, 1, 1, 4], tdata = [0, 2, 4, 0]\<rparr>"
    by (simp add: lora_conv_forward_def conv_forward_def F_conv2d_def conv_data_def patch_def
        pixel_def chop_def dot_def out_size_def F_dropout_def tensor_add_def tensor_scale_def
        ex_injected_conv_def ex_circular_conv_def ex_image_def all_kept_def Let_def
        upt_conv_Cons nth_Cons')
qed

end
